theory Spec2Isabelle
  imports Complex_Main "HOL-Library.Sublist"
begin

section \<open>Strings\<close>

text \<open>
  Strings are lists of characters. \<open>toLowerCase\<close> lowers the letters A to Z and leaves
  every other character as it is, which is what \<open>String.prototype.toLowerCase\<close> does on
  a string of ASCII characters (on other characters JavaScript lowers more);
  \<open>str_includes s sub\<close> is \<open>s.includes(sub)\<close>: \<open>sub\<close> occurs in \<open>s\<close> as a contiguous run of
  characters.
\<close>

definition toLowerChar :: "char \<Rightarrow> char" where
  "toLowerChar c =
     (case map_of (zip ''ABCDEFGHIJKLMNOPQRSTUVWXYZ'' ''abcdefghijklmnopqrstuvwxyz'') c of
        Some d \<Rightarrow> d
      | None \<Rightarrow> c)"

definition toLowerCase :: "string \<Rightarrow> string" where
  "toLowerCase s = map toLowerChar s"

primrec str_includes :: "string \<Rightarrow> string \<Rightarrow> bool" where
  "str_includes [] sub = (sub = [])"
| "str_includes (c # cs) sub = (prefix sub (c # cs) \<or> str_includes cs sub)"

section \<open>Data model (services/github.ts)\<close>

text \<open>
  A parsed JSON value, for fields typed \<open>any\<close> and for response bodies. A number is the
  double that \<open>JSON.parse\<close> gives: a finite double, as a real, or an infinity (for a
  literal beyond the range of doubles); a JSON document holds no \<open>NaN\<close>. An object is the
  list of its members in the order of the document.
\<close>

datatype js_number = Finite real | PlusInfinity | MinusInfinity

datatype json =
    JNull
  | JBool bool
  | JNum js_number
  | JStr string
  | JArr "json list"
  | JObj "(string \<times> json) list"

record GitHubLabel =
  name :: string
  color :: string

record GitHubActor =
  login :: string
  avatar_url :: string

datatype issue_state = Open | Closed

text \<open>
  \<open>GitHubIssue\<close>. The timestamps \<open>created_at\<close> and \<open>updated_at\<close> are ISO-8601 strings
  in the source and are only ever read through \<open>new Date(s).getTime()\<close>; the record holds
  that instant, in milliseconds since the epoch. \<open>reactions_total_count\<close> is
  \<open>reactions?.total_count\<close>, a member the interface does not declare and the code reads
  through \<open>as any\<close>: \<open>None\<close> when it is absent. \<open>repository_stars\<close> is the member the
  two-stage search adds to the issues it returns: \<open>None\<close> when it is absent.
\<close>

record GitHubIssue =
  issue_id :: int
  number :: int
  title :: string
  issue_body :: string
  state :: issue_state
  created_at :: int
  updated_at :: int
  labels :: "GitHubLabel list"
  user :: GitHubActor
  repository_url :: string
  html_url :: string
  comments :: int
  assignee :: json
  reactions_total_count :: "int option"
  repository_stars :: "int option"

section \<open>Classification (services/github.ts, lines 502 to 614)\<close>

definition beginnerLabels :: "string list" where
  "beginnerLabels =
     [''good first issue'', ''good-first-issue'', ''beginner'', ''beginner-friendly'',
      ''easy'', ''starter'', ''newcomer'', ''first-timers-only'', ''up-for-grabs'',
      ''help wanted'', ''documentation'', ''docs'', ''typo'', ''enhancement'', ''feature'',
      ''hacktoberfest'', ''low-hanging-fruit'', ''easy-fix'', ''junior-job'']"

text \<open>\<open>labels.some(l => this.beginnerLabels.some(bl => l.includes(bl)))\<close>\<close>

definition hasBeginnerLabel :: "string list \<Rightarrow> bool" where
  "hasBeginnerLabel ls = list_ex (\<lambda>l. list_ex (\<lambda>bl. str_includes l bl) beginnerLabels) ls"

text \<open>
  The block guarded by the beginner-label test (lines 507 to 520): \<open>Some c\<close> when one of
  its four \<open>return\<close>s is taken, \<open>None\<close> when control leaves the block.
\<close>

definition beginnerCategory :: "string list \<Rightarrow> string option" where
  "beginnerCategory ls =
     (if hasBeginnerLabel ls then
        if list_ex (\<lambda>l. str_includes l ''good first issue'' \<or> str_includes l ''good-first-issue'') ls
          then Some ''good-first-issue''
        else if list_ex (\<lambda>l. str_includes l ''documentation'' \<or> str_includes l ''docs'') ls
          then Some ''documentation''
        else if list_ex (\<lambda>l. str_includes l ''beginner'' \<or> str_includes l ''easy'') ls
          then Some ''beginner-friendly''
        else if list_ex (\<lambda>l. str_includes l ''help wanted'' \<or> str_includes l ''up-for-grabs'') ls
          then Some ''help-wanted''
        else None
      else None)"

text \<open>The chain of tests after the block (lines 522 to 564).\<close>

definition extendedCategory :: "string \<Rightarrow> string list \<Rightarrow> string" where
  "extendedCategory t ls =
     (if list_ex (\<lambda>l. str_includes l ''feature'' \<or> str_includes l ''new feature'') ls
         \<or> str_includes t ''add '' \<or> str_includes t ''implement''
        then ''feature''
      else if list_ex (\<lambda>l. str_includes l ''performance'' \<or> str_includes l ''optimization'') ls
         \<or> str_includes t ''optimize'' \<or> str_includes t ''performance''
        then ''performance''
      else if list_ex (\<lambda>l. str_includes l ''ui'' \<or> str_includes l ''ux'' \<or> str_includes l ''design'') ls
         \<or> str_includes t ''ui'' \<or> str_includes t ''design''
        then ''ui-ux''
      else if list_ex (\<lambda>l. str_includes l ''test'' \<or> str_includes l ''testing'') ls
         \<or> str_includes t ''test''
        then ''testing''
      else if list_ex (\<lambda>l. str_includes l ''refactor'' \<or> str_includes l ''cleanup'') ls
         \<or> str_includes t ''refactor'' \<or> str_includes t ''cleanup''
        then ''refactoring''
      else if list_ex (\<lambda>l. str_includes l ''accessibility'' \<or> str_includes l ''a11y'') ls
         \<or> str_includes t ''accessibility''
        then ''accessibility''
      else if list_ex (\<lambda>l. str_includes l ''api'') ls \<or> str_includes t ''api''
        then ''api''
      else if list_ex (\<lambda>l. str_includes l ''database'' \<or> str_includes l ''db'') ls
         \<or> str_includes t ''database''
        then ''database''
      else if list_ex (\<lambda>l. str_includes l ''deploy'' \<or> str_includes l ''ci'' \<or> str_includes l ''cd'') ls
         \<or> str_includes t ''deploy''
        then ''deployment''
      else if list_ex (\<lambda>l. str_includes l ''security'' \<or> str_includes l ''vulnerability'') ls
        then ''security''
      else if list_ex (\<lambda>l. str_includes l ''bug'' \<or> str_includes l ''fix'') ls
         \<or> str_includes t ''bug'' \<or> str_includes t ''error''
        then ''bug''
      else if list_ex (\<lambda>l. str_includes l ''feature'' \<or> str_includes l ''enhancement'') ls
         \<or> str_includes t ''feature''
        then ''enhancement''
      else if list_ex (\<lambda>l. str_includes l ''typo'' \<or> str_includes l ''spelling'') ls
        then ''typo''
      else ''other'')"

definition categorizeIssue :: "GitHubIssue \<Rightarrow> string" where
  "categorizeIssue issue =
     (let t = toLowerCase (title issue);
          ls = map (\<lambda>l. toLowerCase (name l)) (labels issue)
      in case beginnerCategory ls of
           Some c \<Rightarrow> c
         | None \<Rightarrow> extendedCategory t ls)"

datatype priority = Low | Medium | High

definition getPriorityFromIssue :: "GitHubIssue \<Rightarrow> priority" where
  "getPriorityFromIssue issue =
     (let ls = map (\<lambda>l. toLowerCase (name l)) (labels issue)
      in if hasBeginnerLabel ls then Low
         else if list_ex (\<lambda>l. str_includes l ''critical'' \<or> str_includes l ''urgent''
                    \<or> str_includes l ''high'') ls
           then High
         else if list_ex (\<lambda>l. str_includes l ''medium'' \<or> str_includes l ''important'') ls
           then Medium
         else Low)"

datatype difficulty = Beginner | Intermediate | Advanced

definition getDifficultyFromIssue :: "GitHubIssue \<Rightarrow> difficulty" where
  "getDifficultyFromIssue issue =
     (let ls = map (\<lambda>l. toLowerCase (name l)) (labels issue);
          t = toLowerCase (title issue)
      in if list_ex (\<lambda>l. str_includes l ''good first issue'' \<or> str_includes l ''beginner''
                \<or> str_includes l ''easy'' \<or> str_includes l ''starter''
                \<or> str_includes l ''first-timers-only'' \<or> str_includes l ''documentation''
                \<or> str_includes l ''typo'') ls
           then Beginner
         else if list_ex (\<lambda>l. str_includes l ''advanced'' \<or> str_includes l ''complex''
                    \<or> str_includes l ''architecture'' \<or> str_includes l ''performance''
                    \<or> str_includes l ''security'') ls
              \<or> str_includes t ''refactor'' \<or> str_includes t ''optimize''
           then Advanced
         else Intermediate)"

section \<open>JavaScript values\<close>

text \<open>
  \<open>decimal\<close> prints a natural number as template strings do; \<open>join\<close> and \<open>split\<close> are
  \<open>Array.prototype.join\<close> and \<open>String.prototype.split\<close> at a one-character separator
  (\<open>split\<close> of the empty string is the list of one empty string).
\<close>

fun decimal :: "nat \<Rightarrow> string" where
  "decimal n =
     (if n < 10 then [''0123456789'' ! n]
      else decimal (n div 10) @ [''0123456789'' ! (n mod 10)])"

definition decimal_int :: "int \<Rightarrow> string" where
  "decimal_int i = (if i < 0 then CHR ''-'' # decimal (nat (- i)) else decimal (nat i))"

primrec join :: "string \<Rightarrow> string list \<Rightarrow> string" where
  "join sep [] = []"
| "join sep (x # xs) = (if xs = [] then x else x @ sep @ join sep xs)"

primrec split :: "char \<Rightarrow> string \<Rightarrow> string list" where
  "split sep [] = [[]]"
| "split sep (c # cs) =
     (if c = sep then [] # split sep cs
      else (case split sep cs of [] \<Rightarrow> [[c]] | w # ws \<Rightarrow> (c # w) # ws))"

text \<open>
  Truthiness of an optional value (\<open>None\<close> is \<open>undefined\<close>), and the member read \<open>v.k\<close>
  on a value other than \<open>null\<close>: \<open>JSON.parse\<close> keeps the last value of a key that the
  document repeats, and a value that is not an object has no member of these names.
\<close>

fun truthy :: "json option \<Rightarrow> bool" where
  "truthy None = False"
| "truthy (Some JNull) = False"
| "truthy (Some (JBool b)) = b"
| "truthy (Some (JNum n)) = (n \<noteq> Finite 0)"
| "truthy (Some (JStr s)) = (s \<noteq> [])"
| "truthy (Some (JArr xs)) = True"
| "truthy (Some (JObj kvs)) = True"

fun member :: "json \<Rightarrow> string \<Rightarrow> json option" where
  "member (JObj kvs) k = map_of (rev kvs) k"
| "member j k = None"

text \<open>
  \<open>Array.prototype.sort\<close> with a comparator: a stable sort; \<open>x\<close> stays before \<open>y\<close> when
  the comparator gives a value that is not positive. Insertion from the right end is the
  stable sort for every comparator that orders its arguments consistently, as the
  comparators of this program do on the values modelled here.
\<close>

fun insert_by :: "('a \<Rightarrow> 'a \<Rightarrow> 'b::{zero,ord}) \<Rightarrow> 'a \<Rightarrow> 'a list \<Rightarrow> 'a list" where
  "insert_by cmp x [] = [x]"
| "insert_by cmp x (y # ys) =
     (if cmp x y \<le> 0 then x # y # ys else y # insert_by cmp x ys)"

definition sort_by :: "('a \<Rightarrow> 'a \<Rightarrow> 'b::{zero,ord}) \<Rightarrow> 'a list \<Rightarrow> 'a list" where
  "sort_by cmp xs = foldr (insert_by cmp) xs []"

section \<open>The retrieval client (services/github.ts, lines 150 to 201)\<close>

text \<open>
  What a call throws. \<open>Error m\<close> is an \<open>Error\<close> with the message \<open>m\<close>. \<open>ErrorOf v\<close> is the
  \<open>Error\<close> constructed from a value \<open>v\<close> that is not a string: its message is
  \<open>String(v)\<close>, which the model does not compute.
\<close>

datatype js_error = Error string | ErrorOf json | TypeError | SyntaxError

record request =
  url :: string
  query_params :: "(string \<times> string) list"
  headers :: "(string \<times> string) list"

text \<open>
  A response body either is not JSON (\<open>response.json()\<close> rejects) or is a JSON document;
  \<open>Document j v\<close> holds the document \<open>j\<close> together with \<open>v\<close>, its reading at the type
  \<open>T\<close> that the call \<open>makeRequest<T>\<close> declares (the cast is unchecked in the source). A
  request is the URL without its query string, the \<open>URLSearchParams\<close> and the headers.
\<close>

datatype 'a body = NotJson | Document json 'a

record 'a response =
  status :: nat
  body :: "'a body"

definition ok :: "'a response \<Rightarrow> bool" where
  "ok r = (200 \<le> status r \<and> status r \<le> 299)"

definition baseUrl :: string where
  "baseUrl = ''https://api.github.com''"

text \<open>
  \<open>makeRequest\<close>: \<open>fetch\<close> is the platform (\<open>Inl\<close> when the call itself rejects), \<open>tok\<close> the
  value of \<open>this.getToken()\<close>. No call site passes \<open>options\<close>.
\<close>

definition requestHeaders :: "string option \<Rightarrow> (string \<times> string) list" where
  "requestHeaders tok =
     (let hs = [(''Accept'', ''application/vnd.github.v3+json''),
                (''Content-Type'', ''application/json'')]
      in case tok of
           None \<Rightarrow> hs
         | Some t \<Rightarrow> if t \<noteq> [] then hs @ [(''Authorization'', ''token '' @ t)] else hs)"

definition makeRequest ::
  "(request \<Rightarrow> js_error + 'a response) \<Rightarrow> string option \<Rightarrow> string \<Rightarrow> (string \<times> string) list
     \<Rightarrow> js_error + 'a" where
  "makeRequest fetch tok endpoint params =
     (case fetch \<lparr> url = baseUrl @ endpoint, query_params = params,
                    headers = requestHeaders tok \<rparr> of
        Inl e \<Rightarrow> Inl e
      | Inr r \<Rightarrow>
          if \<not> ok r then
            (let error = (case body r of
                            NotJson \<Rightarrow> JObj [(''message'', JStr ''Unknown error'')]
                          | Document j v \<Rightarrow> j)
             in if error = JNull then Inl TypeError
                else if truthy (member error ''message'')
                  then (case member error ''message'' of
                          Some (JStr m) \<Rightarrow> Inl (Error m)
                        | Some v \<Rightarrow> Inl (ErrorOf v)
                        | None \<Rightarrow> Inl (Error (''HTTP '' @ decimal (status r))))
                else Inl (Error (''HTTP '' @ decimal (status r))))
          else (case body r of
                  NotJson \<Rightarrow> Inl SyntaxError
                | Document j v \<Rightarrow> Inr v))"

text \<open>
  \<open>GitHubRepository\<close>. \<open>repo_updated_at\<close> is the instant of \<open>updated_at\<close> in milliseconds;
  \<open>forks_count\<close> is a member that the platform sends with every repository and the
  interface does not declare; the code reads it through \<open>as any\<close>.
\<close>

record GitHubRepository =
  repo_id :: int
  repo_name :: string
  full_name :: string
  description :: string
  stargazers_count :: int
  open_issues_count :: int
  repo_language :: string
  repo_updated_at :: int
  is_private :: bool
  owner :: GitHubActor
  topics :: "string list option"
  has_issues :: bool
  forks_count :: int

text \<open>
  What the service reads from outside: the stored token, the platform at the two payload
  types the searches declare, the clock (\<open>new Date().getTime()\<close>), the rounding of double
  arithmetic (\<open>fl x\<close> is the double that the exact result \<open>x\<close> of one operation is rounded
  to), \<open>Math.log10\<close>, and \<open>Date.prototype.toLocaleDateString\<close>.
\<close>

record runtime =
  token :: "string option"
  fetch_repos :: "request \<Rightarrow> js_error + (GitHubRepository list) response"
  fetch_issues :: "request \<Rightarrow> js_error + (GitHubIssue list) response"
  now :: int
  fl :: "real \<Rightarrow> real"
  log10 :: "real \<Rightarrow> real"
  toLocaleDateString :: "int \<Rightarrow> string"

definition getRepositoryIssues ::
  "runtime \<Rightarrow> string \<Rightarrow> string \<Rightarrow> string \<Rightarrow> js_error + GitHubIssue list" where
  "getRepositoryIssues rt ownr repo st =
     makeRequest (fetch_issues rt) (token rt) (''/repos/'' @ ownr @ ''/'' @ repo @ ''/issues'')
       [(''state'', st), (''sort'', ''updated''), (''per_page'', ''100'')]"

section \<open>Search (services/github.ts, lines 203 to 407)\<close>

datatype repo_sort = RepoStars | RepoUpdated | RepoForks

datatype issue_sort = SortUpdated | SortStars | SortCreated

fun repo_sort_name :: "repo_sort \<Rightarrow> string" where
  "repo_sort_name RepoStars = ''stars''"
| "repo_sort_name RepoUpdated = ''updated''"
| "repo_sort_name RepoForks = ''forks''"

fun issue_sort_name :: "issue_sort \<Rightarrow> string" where
  "issue_sort_name SortUpdated = ''updated''"
| "issue_sort_name SortStars = ''stars''"
| "issue_sort_name SortCreated = ''created''"

text \<open>The comparator of \<open>searchRepositories\<close> (lines 219 to 230).\<close>

fun repoComparator :: "repo_sort \<Rightarrow> GitHubRepository \<Rightarrow> GitHubRepository \<Rightarrow> int" where
  "repoComparator RepoStars a b = stargazers_count b - stargazers_count a"
| "repoComparator RepoUpdated a b = repo_updated_at b - repo_updated_at a"
| "repoComparator RepoForks a b = forks_count b - forks_count a"

definition searchRepositories ::
  "runtime \<Rightarrow> string \<Rightarrow> repo_sort \<Rightarrow> repo_sort option \<Rightarrow> js_error + GitHubRepository list" where
  "searchRepositories rt query primarySort secondarySort =
     (case makeRequest (fetch_repos rt) (token rt) ''/search/repositories''
             [(''q'', query), (''sort'', repo_sort_name primarySort), (''order'', ''desc''),
              (''per_page'', ''50'')] of
        Inl e \<Rightarrow> Inl e
      | Inr items \<Rightarrow>
          (case secondarySort of
             None \<Rightarrow> Inr items
           | Some s \<Rightarrow>
               if s \<noteq> primarySort then Inr (sort_by (repoComparator s) items)
               else Inr items))"

text \<open>
  The comparator of \<open>searchBeginnerIssues\<close> (lines 275 to 306); \<open>issueSortKey\<close> is the
  quantity each \<open>switch\<close> branch subtracts.
\<close>

fun issueSortKey :: "issue_sort \<Rightarrow> GitHubIssue \<Rightarrow> int" where
  "issueSortKey SortStars x = (case reactions_total_count x of None \<Rightarrow> 0 | Some n \<Rightarrow> n)"
| "issueSortKey SortUpdated x = updated_at x"
| "issueSortKey SortCreated x = created_at x"

definition issueComparator ::
  "issue_sort \<Rightarrow> issue_sort option \<Rightarrow> GitHubIssue \<Rightarrow> GitHubIssue \<Rightarrow> int" where
  "issueComparator primarySort secondarySort a b =
     (let comparison = issueSortKey primarySort b - issueSortKey primarySort a
      in case secondarySort of
           None \<Rightarrow> comparison
         | Some s \<Rightarrow>
             if comparison = 0 \<and> s \<noteq> primarySort
               then issueSortKey s b - issueSortKey s a
             else comparison)"

text \<open>
  The query strings (lines 248 to 262, 322 to 328 and 343 to 356). An absent or empty
  \<open>label\<close> or \<open>language\<close> is falsy.
\<close>

definition labelClause :: "string option \<Rightarrow> string" where
  "labelClause label =
     (case label of
        None \<Rightarrow> '' label:\"good first issue\"''
      | Some l \<Rightarrow>
          if l \<noteq> [] then '' label:\"'' @ l @ ''\"'' else '' label:\"good first issue\"'')"

definition languageClause :: "string option \<Rightarrow> string" where
  "languageClause language =
     (case language of
        None \<Rightarrow> []
      | Some l \<Rightarrow> if l \<noteq> [] then '' language:'' @ l else [])"

definition issueQuery :: "string option \<Rightarrow> string option \<Rightarrow> string" where
  "issueQuery language label =
     ''is:issue is:open'' @ labelClause label @ languageClause language
       @ '' comments:>=1 comments:<=10''"

definition repoQuery :: "string option \<Rightarrow> string" where
  "repoQuery language =
     ''topic:good-first-issue OR topic:beginner-friendly OR topic:hacktoberfest''
       @ languageClause language @ '' stars:>500''"

definition scopedIssueQuery :: "string option \<Rightarrow> string list \<Rightarrow> string" where
  "scopedIssueQuery label repoNames =
     ''is:issue is:open'' @ labelClause label
       @ '' ('' @ join '' OR '' (map (\<lambda>n. ''repo:'' @ n) repoNames) @ '')''
       @ '' comments:>=1 comments:<=15''"

text \<open>
  \<open>calculateHybridScore\<close> (lines 394 to 407). Every arithmetic operation of the source is
  the exact operation on the reals followed by the rounding \<open>fl\<close>; \<open>Math.max\<close> is exact.
\<close>

definition calculateHybridScore :: "runtime \<Rightarrow> GitHubIssue \<Rightarrow> int \<Rightarrow> real" where
  "calculateHybridScore rt issue repoStars =
     (let issueAge = fl rt (real_of_int (now rt) - real_of_int (updated_at issue));
          daysSinceUpdate = fl rt (issueAge / (1000 * 60 * 60 * 24));
          recencyScore = max 0 (fl rt (100 - daysSinceUpdate));
          popularityScore = fl rt (log10 rt (max 1 (real_of_int repoStars)) * 10)
      in fl rt (fl rt (recencyScore * fl rt 0.6) + fl rt (popularityScore * fl rt 0.4)))"

text \<open>
  The request of the single-stage search (lines 265 to 272), and the two requests of the
  two-stage search: State A (line 338) and State B (line 365).
\<close>

definition issueSearch ::
  "runtime \<Rightarrow> string option \<Rightarrow> string option \<Rightarrow> issue_sort \<Rightarrow> js_error + GitHubIssue list" where
  "issueSearch rt language label primarySort =
     makeRequest (fetch_issues rt) (token rt) ''/search/issues''
       [(''q'', issueQuery language label),
        (''sort'', if primarySort = SortStars then ''reactions''
                   else issue_sort_name primarySort),
        (''order'', ''desc''), (''per_page'', ''100'')]"

definition candidateRepositories ::
  "runtime \<Rightarrow> string option \<Rightarrow> js_error + GitHubRepository list" where
  "candidateRepositories rt language =
     makeRequest (fetch_repos rt) (token rt) ''/search/repositories''
       [(''q'', repoQuery language), (''sort'', ''stars''), (''order'', ''desc''),
        (''per_page'', ''20'')]"

definition scopedIssues ::
  "runtime \<Rightarrow> string option \<Rightarrow> GitHubRepository list \<Rightarrow> js_error + GitHubIssue list" where
  "scopedIssues rt label repos =
     makeRequest (fetch_issues rt) (token rt) ''/search/issues''
       [(''q'', scopedIssueQuery label (take 10 (map full_name repos))),
        (''sort'', ''updated''), (''order'', ''desc''), (''per_page'', ''50'')]"

text \<open>
  The join of an issue with its repository (lines 368 to 375) and the comparator of the
  final sort (lines 378 to 382). Every issue that reaches the sort carries the member
  \<open>repository_stars\<close>, so the comparator never reads an absent one.
\<close>

definition enhanceIssue :: "GitHubRepository list \<Rightarrow> GitHubIssue \<Rightarrow> GitHubIssue" where
  "enhanceIssue repos issue =
     (let parts = split CHR ''/'' (repository_url issue);
          repoFullName = join ''/'' (drop (length parts - 2) parts);
          repo = find (\<lambda>r. full_name r = repoFullName) repos
      in issue\<lparr> repository_stars :=
           Some (case repo of None \<Rightarrow> 0 | Some r \<Rightarrow> stargazers_count r) \<rparr>)"

definition hybridComparator :: "runtime \<Rightarrow> GitHubIssue \<Rightarrow> GitHubIssue \<Rightarrow> real" where
  "hybridComparator rt a b =
     (let aScore = calculateHybridScore rt a
                     (case repository_stars a of None \<Rightarrow> 0 | Some n \<Rightarrow> n);
          bScore = calculateHybridScore rt b
                     (case repository_stars b of None \<Rightarrow> 0 | Some n \<Rightarrow> n)
      in fl rt (bScore - aScore))"

text \<open>
  \<open>searchBeginnerIssues\<close> and \<open>searchRecentIssuesFromStarredRepos\<close> call each other: the
  first hands the combination of primary key \<open>updated\<close> and secondary key \<open>stars\<close> to the
  second, whose \<open>catch\<close> calls the first with \<open>updated\<close> alone. The result is the \<open>items\<close>
  member of the object returned.
\<close>

function searchBeginnerIssues ::
    "runtime \<Rightarrow> string option \<Rightarrow> string option \<Rightarrow> issue_sort \<Rightarrow> issue_sort option
       \<Rightarrow> js_error + GitHubIssue list"
  and searchRecentIssuesFromStarredRepos ::
    "runtime \<Rightarrow> string option \<Rightarrow> string option \<Rightarrow> js_error + GitHubIssue list" where
  "searchBeginnerIssues rt language label primarySort secondarySort =
     (if primarySort = SortUpdated \<and> secondarySort = Some SortStars
        then searchRecentIssuesFromStarredRepos rt language label
      else
        (case issueSearch rt language label primarySort of
           Inl e \<Rightarrow> Inl e
         | Inr items \<Rightarrow>
             Inr (take 50 (sort_by (issueComparator primarySort secondarySort) items))))"
| "searchRecentIssuesFromStarredRepos rt language label =
     (case candidateRepositories rt language of
        Inl e \<Rightarrow> searchBeginnerIssues rt language label SortUpdated None
      | Inr repos \<Rightarrow>
          (case scopedIssues rt label repos of
             Inl e \<Rightarrow> searchBeginnerIssues rt language label SortUpdated None
           | Inr items \<Rightarrow>
               Inr (sort_by (hybridComparator rt) (map (enhanceIssue repos) items))))"
  by pat_completeness auto
termination
  by (relation "measure (\<lambda>x. case x of
          Inl (rt, language, label, p, s) \<Rightarrow>
            if p = SortUpdated \<and> s = Some SortStars then 2 else 0
        | Inr (rt, language, label) \<Rightarrow> 1)") auto

declare searchBeginnerIssues.simps [simp del]
declare searchRecentIssuesFromStarredRepos.simps [simp del]

section \<open>Aggregation (components/Dashboard.tsx, lines 93 to 156)\<close>

text \<open>The view types \<open>Repository\<close>, \<open>UserData\<close> and \<open>Issue\<close>.\<close>

record Repository =
  r_id :: int
  r_name :: string
  r_full_name :: string
  r_description :: string
  r_stargazers_count :: int
  r_open_issues_count :: int
  r_language :: string
  r_private :: bool
  r_topics :: "string list option"
  r_owner :: "GitHubActor option"

record NotificationPreferences =
  instant :: bool
  daily :: bool
  weekly :: bool

record UserData =
  username :: string
  githubUsername :: "string option"
  repositoryUrl :: "string option"
  issueTypes :: "string list"
  repositories :: "Repository list option"
  notificationPreferences :: NotificationPreferences

record Issue =
  i_id :: int
  i_title :: string
  i_type :: string
  i_priority :: priority
  i_difficulty :: "difficulty option"
  i_status :: issue_state
  createdAt :: string
  repository :: string
  repositoryFullName :: "string option"
  i_url :: "string option"
  author :: "string option"
  i_labels :: "string list option"
  i_comments :: "int option"
  i_assignee :: json

text \<open>The component state that \<open>fetchAllIssues\<close> writes.\<close>

record dashboard =
  allIssues :: "Issue list"
  loading :: bool
  lastRefresh :: int

definition batchSize :: nat where
  "batchSize = 3"

text \<open>\<open>xs.slice(i, j)\<close> for \<open>i \<le> j\<close>, and the loop that cuts the batches (lines 105 to 108).\<close>

definition slice :: "nat \<Rightarrow> nat \<Rightarrow> 'a list \<Rightarrow> 'a list" where
  "slice i j xs = take (j - i) (drop i xs)"

function batchesFrom :: "nat \<Rightarrow> 'a list \<Rightarrow> 'a list list" where
  "batchesFrom i xs =
     (if i < length xs then slice i (i + batchSize) xs # batchesFrom (i + batchSize) xs
      else [])"
  by pat_completeness auto
termination
  by (relation "measure (\<lambda>(i, xs). length xs - i)") (auto simp: batchSize_def)

declare batchesFrom.simps [simp del]

text \<open>
  The component classifies through the three methods of the object \<open>githubService\<close> that
  it imports. The model passes the methods: what is proved of the component for every
  such object holds of the service of the source, whose \<open>toLowerCase\<close> lowers characters
  outside ASCII as well, and of \<open>githubService\<close> below, which holds the three functions of
  this theory.
\<close>

record classifier =
  categorize :: "GitHubIssue \<Rightarrow> string"
  priorityOf :: "GitHubIssue \<Rightarrow> priority"
  difficultyOf :: "GitHubIssue \<Rightarrow> difficulty"

definition githubService :: classifier where
  "githubService =
     \<lparr> categorize = categorizeIssue, priorityOf = getPriorityFromIssue,
       difficultyOf = getDifficultyFromIssue \<rparr>"

text \<open>
  The callback of \<open>batch.map\<close> (lines 113 to 138): the issues of one repository, or the
  empty list when anything in the \<open>try\<close> block throws. A missing second part of
  \<open>full_name\<close> is \<open>undefined\<close> and prints as such in the URL.
\<close>

definition toIssue :: "classifier \<Rightarrow> runtime \<Rightarrow> Repository \<Rightarrow> GitHubIssue \<Rightarrow> Issue" where
  "toIssue svc rt repo issue =
     \<lparr> i_id = issue_id issue,
       i_title = title issue,
       i_type = categorize svc issue,
       i_priority = priorityOf svc issue,
       i_difficulty = Some (difficultyOf svc issue),
       i_status = state issue,
       createdAt = toLocaleDateString rt (created_at issue),
       repository = r_name repo,
       repositoryFullName = Some (r_full_name repo),
       i_url = Some (html_url issue),
       author = Some (login (user issue)),
       i_labels = Some (map name (labels issue)),
       i_comments = Some (comments issue),
       i_assignee = assignee issue \<rparr>"

definition repositoryIssues :: "runtime \<Rightarrow> Repository \<Rightarrow> js_error + GitHubIssue list" where
  "repositoryIssues rt repo =
     (let parts = split CHR ''/'' (r_full_name repo);
          ownr = (case parts of [] \<Rightarrow> ''undefined'' | p # ps \<Rightarrow> p);
          repoName = (case parts of p # q # ps \<Rightarrow> q | _ \<Rightarrow> ''undefined'')
      in getRepositoryIssues rt ownr repoName ''open'')"

definition fetchRepoIssues :: "classifier \<Rightarrow> runtime \<Rightarrow> Repository \<Rightarrow> Issue list" where
  "fetchRepoIssues svc rt repo =
     (case repositoryIssues rt repo of
        Inl e \<Rightarrow> []
      | Inr githubIssues \<Rightarrow> map (toIssue svc rt repo) (take 20 githubIssues))"

definition fetchAllIssues ::
  "classifier \<Rightarrow> runtime \<Rightarrow> UserData \<Rightarrow> dashboard \<Rightarrow> dashboard" where
  "fetchAllIssues svc rt userData st =
     (case repositories userData of
        None \<Rightarrow> st\<lparr> loading := False \<rparr>
      | Some repos \<Rightarrow>
          if length repos = 0 then st\<lparr> loading := False \<rparr>
          else
            (let batches = batchesFrom 0 repos;
                 allIssuesData =
                   concat (map (\<lambda>batch. concat (map (fetchRepoIssues svc rt) batch)) batches);
                 filteredIssues = filter (\<lambda>issue. i_type issue \<in> set (issueTypes userData)) allIssuesData
             in st\<lparr> allIssues := filteredIssues, lastRefresh := now rt, loading := False \<rparr>))"

section \<open>The statements of the specification\<close>

text \<open>
  The hybrid score as the specification words it: the recency component
  \<open>max(0, 100 - daysSinceUpdate)\<close>, the popularity component
  \<open>log10(max(1, repoStars)) * 10\<close>, and \<open>0.6 * recency + 0.4 * popularity\<close>, each
  operation in double arithmetic.
\<close>

definition daysSinceUpdate :: "runtime \<Rightarrow> GitHubIssue \<Rightarrow> real" where
  "daysSinceUpdate rt issue =
     fl rt (fl rt (real_of_int (now rt) - real_of_int (updated_at issue)) / 86400000)"

definition recencyComponent :: "runtime \<Rightarrow> GitHubIssue \<Rightarrow> real" where
  "recencyComponent rt issue = max 0 (fl rt (100 - daysSinceUpdate rt issue))"

definition popularityComponent :: "runtime \<Rightarrow> int \<Rightarrow> real" where
  "popularityComponent rt repoStars = fl rt (log10 rt (max 1 (real_of_int repoStars)) * 10)"

definition hybridScore_spec :: "runtime \<Rightarrow> GitHubIssue \<Rightarrow> int \<Rightarrow> real" where
  "hybridScore_spec rt issue repoStars =
     fl rt (fl rt (fl rt 0.6 * recencyComponent rt issue)
            + fl rt (fl rt 0.4 * popularityComponent rt repoStars))"

text \<open>
  Two issues tie under a primary and an optional secondary key when they agree on the
  primary key and, if a secondary key is given, on that key too.
\<close>

definition sameKeys :: "issue_sort \<Rightarrow> issue_sort option \<Rightarrow> GitHubIssue \<Rightarrow> GitHubIssue \<Rightarrow> bool" where
  "sameKeys p s a b =
     (issueSortKey p a = issueSortKey p b
      \<and> (case s of None \<Rightarrow> True | Some k \<Rightarrow> issueSortKey k a = issueSortKey k b))"

text \<open>The number of places at which \<open>sub\<close> occurs in a string.\<close>

primrec occurrences :: "string \<Rightarrow> string \<Rightarrow> nat" where
  "occurrences sub [] = (if sub = [] then 1 else 0)"
| "occurrences sub (c # cs) = (if prefix sub (c # cs) then 1 else 0) + occurrences sub cs"

section \<open>Example inputs\<close>

text \<open>
  An issue with the given title and label names, every other member at a fixed value: the
  classification reads only the title and the label names.
\<close>

definition issueWith :: "string \<Rightarrow> string list \<Rightarrow> GitHubIssue" where
  "issueWith t names =
     \<lparr> issue_id = 1, number = 1, title = t, issue_body = [], state = Open,
       created_at = 0, updated_at = 0,
       labels = map (\<lambda>n. \<lparr> name = n, color = ''ededed'' \<rparr>) names,
       user = \<lparr> login = ''octocat'', avatar_url = [] \<rparr>,
       repository_url = [], html_url = [], comments = 0, assignee = JNull,
       reactions_total_count = None, repository_stars = None \<rparr>"

text \<open>
  A platform that answers every request with the response \<open>r\<close>, a success response whose
  payload reads as \<open>xs\<close> (the document is cut down to its \<open>total_count\<close> member), and a
  runtime with exact arithmetic, no token and the given platform and clock.
\<close>

definition answering :: "'a response \<Rightarrow> request \<Rightarrow> js_error + 'a response" where
  "answering r req = Inr r"

definition okItems :: "'a list \<Rightarrow> 'a list response" where
  "okItems xs =
     \<lparr> status = 200, body = Document (JObj [(''total_count'', JNum (Finite (real (length xs))))]) xs \<rparr>"

definition exactRuntime ::
  "(request \<Rightarrow> js_error + (GitHubRepository list) response)
     \<Rightarrow> (request \<Rightarrow> js_error + (GitHubIssue list) response) \<Rightarrow> int \<Rightarrow> runtime" where
  "exactRuntime fr fi t =
     \<lparr> token = None, fetch_repos = fr, fetch_issues = fi, now = t,
       fl = (\<lambda>x. x), log10 = log 10, toLocaleDateString = decimal_int \<rparr>"

text \<open>
  A platform on which the candidate search finds no repository, the scoped issue search
  (whose repository filter is then empty) is answered by \<open>scoped\<close>, and every other issue
  search finds one issue.
\<close>

definition validationFailed :: "GitHubIssue list response" where
  "validationFailed =
     \<lparr> status = 422, body = Document (JObj [(''message'', JStr ''Validation Failed'')]) [] \<rparr>"

definition platformWithoutCandidates :: "GitHubIssue list response \<Rightarrow> runtime" where
  "platformWithoutCandidates scoped =
     exactRuntime (\<lambda>req. Inr (okItems []))
       (\<lambda>req. if map_of (query_params req) ''q'' = Some (scopedIssueQuery None [])
               then Inr scoped
               else Inr (okItems [issueWith ''Fix typo in README'' [''good first issue'']]))
       0"

text \<open>
  An issue of the repository \<open>repo\<close> with the given update instant and reaction count, a
  repository with the given full name, star count and update instant, and a view
  repository with the given name and full name.
\<close>

definition issueAt :: "string \<Rightarrow> string \<Rightarrow> int \<Rightarrow> int option \<Rightarrow> GitHubIssue" where
  "issueAt t repo updated reactions =
     (issueWith t [''good first issue''])
       \<lparr> updated_at := updated,
         repository_url := ''https://api.github.com/repos/'' @ repo,
         reactions_total_count := reactions \<rparr>"

definition repoWith :: "string \<Rightarrow> int \<Rightarrow> int \<Rightarrow> GitHubRepository" where
  "repoWith fullName stars updated =
     \<lparr> repo_id = 1, repo_name = fullName, full_name = fullName, description = [],
       stargazers_count = stars, open_issues_count = 0, repo_language = ''Go'',
       repo_updated_at = updated, is_private = False,
       owner = \<lparr> login = ''octocat'', avatar_url = [] \<rparr>,
       topics = None, has_issues = True, forks_count = 0 \<rparr>"

definition viewRepo :: "string \<Rightarrow> string \<Rightarrow> Repository" where
  "viewRepo n fullName =
     \<lparr> r_id = 1, r_name = n, r_full_name = fullName, r_description = [],
       r_stargazers_count = 0, r_open_issues_count = 0, r_language = ''Go'',
       r_private = False, r_topics = None, r_owner = None \<rparr>"

text \<open>
  A platform whose issue search returns three issues: A and C with 5 reactions, B with 7;
  C updated last, then A, then B.
\<close>

definition threeIssues :: "GitHubIssue list" where
  "threeIssues =
     [issueAt ''A'' ''acme/app'' 100 (Some 5),
      issueAt ''B'' ''acme/app'' 50 (Some 7),
      issueAt ''C'' ''acme/app'' 200 (Some 5)]"

definition threeIssuesPlatform :: runtime where
  "threeIssuesPlatform =
     exactRuntime (\<lambda>req. Inr (okItems [])) (\<lambda>req. Inr (okItems threeIssues)) 0"

text \<open>
  A platform for the two-stage search, read 300 days after the epoch: one candidate
  repository with 1000 stars; issue A of another repository, updated on day 100, and
  issue B of the candidate, updated on day 0, returned in this order.
\<close>

definition hybridPlatform :: runtime where
  "hybridPlatform =
     exactRuntime
       (\<lambda>req. Inr (okItems [repoWith ''big/repo'' 1000 0]))
       (\<lambda>req. Inr (okItems [issueAt ''A'' ''small/repo'' 8640000000 None,
                             issueAt ''B'' ''big/repo'' 0 None]))
       25920000000"

text \<open>
  A platform whose repository search returns a repository with 10 stars updated at
  instant 1, then one with 5 stars updated at instant 2.
\<close>

definition twoReposPlatform :: runtime where
  "twoReposPlatform =
     exactRuntime
       (\<lambda>req. Inr (okItems [repoWith ''acme/popular'' 10 1, repoWith ''acme/recent'' 5 2]))
       (\<lambda>req. Inr (okItems [])) 0"

text \<open>
  Five monitored repositories on a platform where the issues of the third are not found
  and every other repository has one issue, labelled \<open>good first issue\<close> and \<open>bug\<close>.
\<close>

definition fiveRepos :: "Repository list" where
  "fiveRepos =
     [viewRepo ''r1'' ''acme/r1'', viewRepo ''r2'' ''acme/r2'', viewRepo ''r3'' ''acme/r3'',
      viewRepo ''r4'' ''acme/r4'', viewRepo ''r5'' ''acme/r5'']"

definition notFound :: "GitHubIssue list response" where
  "notFound = \<lparr> status = 404, body = Document (JObj [(''message'', JStr ''Not Found'')]) [] \<rparr>"

definition thirdFailsPlatform :: runtime where
  "thirdFailsPlatform =
     exactRuntime (\<lambda>req. Inr (okItems []))
       (\<lambda>req. if url req = ''https://api.github.com/repos/acme/r3/issues''
               then Inr notFound
               else Inr (okItems [issueWith ''Fix crash on startup'' [''good first issue'', ''bug'']]))
       0"

definition fiveReposUser :: UserData where
  "fiveReposUser =
     \<lparr> username = ''ada'', githubUsername = None, repositoryUrl = None,
       issueTypes = [''good-first-issue'', ''documentation''],
       repositories = Some fiveRepos,
       notificationPreferences = \<lparr> instant = True, daily = False, weekly = False \<rparr> \<rparr>"

definition emptyDashboard :: dashboard where
  "emptyDashboard = \<lparr> allIssues = [], loading = False, lastRefresh = 0 \<rparr>"

text \<open>
  One monitored repository on a platform where every repository has 21 issues, each
  labelled \<open>good first issue\<close>.
\<close>

definition manyIssuesPlatform :: runtime where
  "manyIssuesPlatform =
     exactRuntime (\<lambda>req. Inr (okItems []))
       (\<lambda>req. Inr (okItems (replicate 21 (issueWith ''Fix typo in README'' [''good first issue'']))))
       0"

definition oneRepoUser :: UserData where
  "oneRepoUser = fiveReposUser \<lparr> repositories := Some [viewRepo ''r1'' ''acme/r1''] \<rparr>"

text \<open>
  A platform, read 300 days after the epoch, on which the candidate search finds no
  repository and the scoped issue search returns issue A, updated on day 250, before issue
  B, updated on day 290; every other issue search finds one issue.
\<close>

definition twoScopedIssuesPlatform :: runtime where
  "twoScopedIssuesPlatform =
     exactRuntime (\<lambda>req. Inr (okItems []))
       (\<lambda>req. if map_of (query_params req) ''q'' = Some (scopedIssueQuery None [])
               then Inr (okItems [issueAt ''A'' ''acme/app'' 21600000000 None,
                                  issueAt ''B'' ''acme/app'' 25056000000 None])
               else Inr (okItems [issueWith ''Fix typo in README'' [''good first issue'']]))
       25920000000"

section \<open>Properties of the classification\<close>

lemma str_includes_sublist: "str_includes s sub = sublist sub s"
  by (induction s) (auto simp: sublist_Cons_right)

lemma hasBeginnerLabel_iff:
  "hasBeginnerLabel ls \<longleftrightarrow> (\<exists>l \<in> set ls. \<exists>bl \<in> set beginnerLabels. str_includes l bl)"
  by (simp add: hasBeginnerLabel_def list_ex_iff)

lemma hasBeginnerLabelI:
  "l \<in> set ls \<Longrightarrow> bl \<in> set beginnerLabels \<Longrightarrow> str_includes l bl \<Longrightarrow> hasBeginnerLabel ls"
  unfolding hasBeginnerLabel_iff by blast

lemma lowered_labels:
  "map (\<lambda>l. toLowerCase (name l)) (labels issue) = map toLowerCase (map name (labels issue))"
  by simp

lemma beginnerCategory_range:
  "beginnerCategory ls = Some c \<Longrightarrow>
     c \<in> {''good-first-issue'', ''documentation'', ''beginner-friendly'', ''help-wanted''}"
  by (auto simp: beginnerCategory_def split: if_splits)

lemma extendedCategory_not_beginner:
  "extendedCategory t ls \<notin>
     {''good-first-issue'', ''documentation'', ''beginner-friendly'', ''help-wanted''}"
  by (simp add: extendedCategory_def)

text \<open>
  The guarded block tests eight strings, each an entry of the allowlist (they cover ten of
  its nineteen entries); a label that contains one of them makes the block return.
\<close>

lemma beginnerCategory_decides:
  assumes "n \<in> set ls"
    and "k \<in> {''good first issue'', ''good-first-issue'', ''documentation'', ''docs'',
               ''beginner'', ''easy'', ''help wanted'', ''up-for-grabs''}"
    and "str_includes n k"
  shows "beginnerCategory ls \<noteq> None"
proof -
  have "k \<in> set beginnerLabels"
    using assms(2) by (auto simp: beginnerLabels_def)
  with assms(1,3) have g: "hasBeginnerLabel ls"
    by (blast intro: hasBeginnerLabelI)
  have "\<exists>x\<in>set ls. str_includes x k"
    using assms(1,3) by blast
  with assms(2) g show ?thesis
    by (auto simp: beginnerCategory_def list_ex_iff)
qed

text \<open>
  A beginner category is returned exactly when the guarded block returns: the later chain
  produces none of the four.
\<close>

lemma categorizeIssue_beginner_category_iff:
  "categorizeIssue issue \<in>
      {''good-first-issue'', ''documentation'', ''beginner-friendly'', ''help-wanted''}
   \<longleftrightarrow> beginnerCategory (map (\<lambda>l. toLowerCase (name l)) (labels issue)) \<noteq> None"
  using extendedCategory_not_beginner beginnerCategory_range
  by (auto simp: categorizeIssue_def Let_def split: option.splits)

text \<open>
  Claim C1, as amended. The claim says that every issue with a beginner-signal label (a
  label whose lowercase name contains an entry of \<open>beginnerLabels\<close>) and a bug-signal label
  is given one of the four beginner categories and never \<open>bug\<close>. The code returns from the
  guarded block only for the entries it tests there. What holds: an issue with a label whose
  lowercase name contains \<open>good first issue\<close>, \<open>good-first-issue\<close>, \<open>documentation\<close>,
  \<open>docs\<close>, \<open>beginner\<close>, \<open>easy\<close>, \<open>help wanted\<close> or \<open>up-for-grabs\<close> is given one of the
  four beginner categories, and not \<open>bug\<close>, whatever other labels and title it has.
\<close>

theorem categorizeIssue_beginner_label_decides:
  assumes "l \<in> set (labels issue)"
    and "k \<in> {''good first issue'', ''good-first-issue'', ''documentation'', ''docs'',
               ''beginner'', ''easy'', ''help wanted'', ''up-for-grabs''}"
    and "str_includes (toLowerCase (name l)) k"
  shows "categorizeIssue issue \<in>
           {''good-first-issue'', ''documentation'', ''beginner-friendly'', ''help-wanted''}
         \<and> categorizeIssue issue \<noteq> ''bug''"
proof -
  let ?ls = "map (\<lambda>l. toLowerCase (name l)) (labels issue)"
  have "toLowerCase (name l) \<in> set ?ls"
    using assms(1) by simp
  then have "beginnerCategory ?ls \<noteq> None"
    using assms(2,3) by (rule beginnerCategory_decides)
  then obtain c where c: "beginnerCategory ?ls = Some c"
    by blast
  then have "categorizeIssue issue = c"
    by (simp add: categorizeIssue_def)
  moreover note beginnerCategory_range [OF c]
  ultimately show ?thesis by auto
qed

text \<open>
  The amended claim at an issue labelled \<open>Help Wanted\<close> and \<open>bug\<close>: the category is
  \<open>help-wanted\<close>.
\<close>

theorem categorizeIssue_beginner_label_decides_witness:
  "\<lparr> name = ''Help Wanted'', color = ''ededed'' \<rparr>
      \<in> set (labels (issueWith ''Crash in the parser'' [''Help Wanted'', ''bug'']))
   \<and> str_includes (toLowerCase (name \<lparr> name = ''Help Wanted'', color = ''ededed'' \<rparr>)) ''help wanted''
   \<and> categorizeIssue (issueWith ''Crash in the parser'' [''Help Wanted'', ''bug''])
        \<in> {''good-first-issue'', ''documentation'', ''beginner-friendly'', ''help-wanted''}
   \<and> categorizeIssue (issueWith ''Crash in the parser'' [''Help Wanted'', ''bug'']) \<noteq> ''bug''"
proof -
  have a: "\<lparr> name = ''Help Wanted'', color = ''ededed'' \<rparr>
             \<in> set (labels (issueWith ''Crash in the parser'' [''Help Wanted'', ''bug'']))"
    by (simp add: issueWith_def)
  have b: "''help wanted'' \<in> {''good first issue'', ''good-first-issue'', ''documentation'',
             ''docs'', ''beginner'', ''easy'', ''help wanted'', ''up-for-grabs''}"
    by simp
  have c: "str_includes (toLowerCase (name \<lparr> name = ''Help Wanted'', color = ''ededed'' \<rparr>))
             ''help wanted''"
    by (simp add: toLowerCase_def toLowerChar_def)
  show ?thesis
    using a c categorizeIssue_beginner_label_decides [OF a b c] by simp
qed

text \<open>
  Claim C1 as stated fails at the issue titled \<open>Fix crash on startup\<close> with the labels
  \<open>typo\<close> and \<open>bug\<close>: \<open>typo\<close> is on the allowlist, so the guard holds, but none of the
  four tests in the block matches, control leaves the block, and the bug rule, which stands
  before the typo rule, returns \<open>bug\<close>.
\<close>

theorem categorizeIssue_typo_bug_counterexample:
  "map name (labels (issueWith ''Fix crash on startup'' [''typo'', ''bug''])) = [''typo'', ''bug'']
   \<and> ''typo'' \<in> set beginnerLabels
   \<and> str_includes (toLowerCase ''typo'') ''typo''
   \<and> str_includes (toLowerCase ''bug'') ''bug''
   \<and> categorizeIssue (issueWith ''Fix crash on startup'' [''typo'', ''bug'']) = ''bug''"
  by (simp add: categorizeIssue_def issueWith_def toLowerCase_def toLowerChar_def
      hasBeginnerLabel_def beginnerLabels_def beginnerCategory_def extendedCategory_def)

text \<open>
  Claim C8. An issue whose labels are \<open>good first issue\<close> and \<open>bug\<close>, in this order, and
  whose title is \<open>Fix crash on startup\<close> has category \<open>good-first-issue\<close>, priority low and
  difficulty beginner, whatever its other members are.
\<close>

theorem scenario_good_first_issue_and_bug:
  assumes "title issue = ''Fix crash on startup''"
    and "map name (labels issue) = [''good first issue'', ''bug'']"
  shows "categorizeIssue issue = ''good-first-issue''
     \<and> getPriorityFromIssue issue = Low
     \<and> getDifficultyFromIssue issue = Beginner"
proof -
  have ls: "map (\<lambda>l. toLowerCase (name l)) (labels issue) = [''good first issue'', ''bug'']"
    unfolding lowered_labels assms(2) by (simp add: toLowerCase_def toLowerChar_def)
  have g: "hasBeginnerLabel [''good first issue'', ''bug'']"
    by (simp add: hasBeginnerLabel_def beginnerLabels_def)
  have "categorizeIssue issue = ''good-first-issue''"
    by (simp add: categorizeIssue_def ls beginnerCategory_def g)
  moreover have "getPriorityFromIssue issue = Low"
    by (simp add: getPriorityFromIssue_def ls g)
  moreover have "getDifficultyFromIssue issue = Beginner"
    by (simp add: getDifficultyFromIssue_def ls)
  ultimately show ?thesis by simp
qed

theorem scenario_good_first_issue_and_bug_witness:
  "title (issueWith ''Fix crash on startup'' [''good first issue'', ''bug''])
     = ''Fix crash on startup''
   \<and> map name (labels (issueWith ''Fix crash on startup'' [''good first issue'', ''bug'']))
     = [''good first issue'', ''bug'']
   \<and> categorizeIssue (issueWith ''Fix crash on startup'' [''good first issue'', ''bug''])
     = ''good-first-issue''
   \<and> getPriorityFromIssue (issueWith ''Fix crash on startup'' [''good first issue'', ''bug''])
     = Low
   \<and> getDifficultyFromIssue (issueWith ''Fix crash on startup'' [''good first issue'', ''bug''])
     = Beginner"
proof -
  have a: "title (issueWith ''Fix crash on startup'' [''good first issue'', ''bug''])
             = ''Fix crash on startup''"
    by (simp add: issueWith_def)
  have b: "map name (labels (issueWith ''Fix crash on startup'' [''good first issue'', ''bug'']))
             = [''good first issue'', ''bug'']"
    by (simp add: issueWith_def)
  show ?thesis
    using a b scenario_good_first_issue_and_bug [OF a b] by simp
qed

text \<open>
  Claim C10. An issue with a label whose lowercase name contains \<open>enhancement\<close> or
  \<open>feature\<close> has priority low, whatever its other labels are (also one containing
  \<open>critical\<close>, \<open>urgent\<close> or \<open>high\<close>): both words are entries of \<open>beginnerLabels\<close>, and the
  allowlist test comes before the urgency tests.
\<close>

theorem getPriorityFromIssue_enhancement_feature_low:
  assumes "l \<in> set (labels issue)"
    and "str_includes (toLowerCase (name l)) ''enhancement''
         \<or> str_includes (toLowerCase (name l)) ''feature''"
  shows "getPriorityFromIssue issue = Low"
proof -
  let ?ls = "map (\<lambda>l. toLowerCase (name l)) (labels issue)"
  have mem: "toLowerCase (name l) \<in> set ?ls"
    using assms(1) by simp
  have "hasBeginnerLabel ?ls"
  proof (cases "str_includes (toLowerCase (name l)) ''enhancement''")
    case True
    show ?thesis
      by (rule hasBeginnerLabelI [OF mem _ True]) (simp add: beginnerLabels_def)
  next
    case False
    with assms(2) have f: "str_includes (toLowerCase (name l)) ''feature''"
      by simp
    show ?thesis
      by (rule hasBeginnerLabelI [OF mem _ f]) (simp add: beginnerLabels_def)
  qed
  then show ?thesis
    by (simp add: getPriorityFromIssue_def)
qed

text \<open>
  The claim at an issue labelled \<open>critical\<close> and \<open>Feature request\<close>: the priority is low.
\<close>

theorem getPriorityFromIssue_enhancement_feature_low_witness:
  "\<lparr> name = ''Feature request'', color = ''ededed'' \<rparr>
      \<in> set (labels (issueWith ''Crash'' [''critical'', ''Feature request'']))
   \<and> str_includes (toLowerCase (name \<lparr> name = ''Feature request'', color = ''ededed'' \<rparr>))
        ''feature''
   \<and> getPriorityFromIssue (issueWith ''Crash'' [''critical'', ''Feature request'']) = Low"
proof -
  have a: "\<lparr> name = ''Feature request'', color = ''ededed'' \<rparr>
             \<in> set (labels (issueWith ''Crash'' [''critical'', ''Feature request'']))"
    by (simp add: issueWith_def)
  have c: "str_includes (toLowerCase (name \<lparr> name = ''Feature request'', color = ''ededed'' \<rparr>))
             ''feature''"
    by (simp add: toLowerCase_def toLowerChar_def)
  show ?thesis
    using a c getPriorityFromIssue_enhancement_feature_low [OF a disjI2 [OF c]] by simp
qed

text \<open>Without the allowlisted label the same issue has priority high.\<close>

lemma getPriorityFromIssue_critical_alone:
  "getPriorityFromIssue (issueWith ''Crash'' [''critical'']) = High"
  by (simp add: getPriorityFromIssue_def issueWith_def toLowerCase_def toLowerChar_def
      hasBeginnerLabel_def beginnerLabels_def)

section \<open>Properties of the retrieval client\<close>

text \<open>
  Claim C3, as amended. The claim says that a response with a non-success status raises an
  error whose message is the platform's message when the body parses as JSON with a message
  member, and \<open>HTTP <status>\<close> otherwise. The code has a third message: a body that does
  not parse as JSON is replaced by an object whose message is \<open>Unknown error\<close>. What holds,
  when the platform answers the request with a response \<open>r\<close> of a non-success status: the
  message is \<open>Unknown error\<close> when the body is not JSON; it is the platform's message when
  the body is a JSON object whose message member is a non-empty string (for a truthy
  message member of another type the error is constructed from that value); it is
  \<open>HTTP <status>\<close> when the body is JSON other than \<open>null\<close> with no message member or a
  falsy one. On the body \<open>null\<close> the read of \<open>error.message\<close> throws a \<open>TypeError\<close>
  instead.
\<close>

theorem makeRequest_error_message:
  assumes "fetch \<lparr> url = baseUrl @ endpoint, query_params = params,
                   headers = requestHeaders tok \<rparr> = Inr r"
    and "\<not> ok r"
  shows "makeRequest fetch tok endpoint params =
     Inl (case body r of
            NotJson \<Rightarrow> Error ''Unknown error''
          | Document j v \<Rightarrow>
              if j = JNull then TypeError
              else (case member j ''message'' of
                      None \<Rightarrow> Error (''HTTP '' @ decimal (status r))
                    | Some (JStr m) \<Rightarrow>
                        if m \<noteq> [] then Error m else Error (''HTTP '' @ decimal (status r))
                    | Some x \<Rightarrow>
                        if truthy (Some x) then ErrorOf x
                        else Error (''HTTP '' @ decimal (status r))))"
proof (cases "body r")
  case NotJson
  with assms show ?thesis
    by (simp add: makeRequest_def)
next
  case (Document j v)
  show ?thesis
  proof (cases "member j ''message''")
    case None
    with assms Document show ?thesis
      by (simp add: makeRequest_def)
  next
    case (Some x)
    with assms Document show ?thesis
      by (cases x) (simp_all add: makeRequest_def)
  qed
qed

text \<open>
  A member named \<open>message\<close> is read from an object only, and from the last place at which
  the document gives it.
\<close>

lemma member_message_last:
  "member (JObj (kvs @ [(''message'', v)])) ''message'' = Some v"
  by simp

text \<open>The amended claim at a 404 response whose body carries the message \<open>Not Found\<close>.\<close>

theorem makeRequest_error_message_witness:
  "answering \<lparr> status = 404, body = Document (JObj [(''message'', JStr ''Not Found'')]) () \<rparr>
      \<lparr> url = baseUrl @ ''/repos/octocat/gone'', query_params = [],
        headers = requestHeaders None \<rparr>
     = Inr \<lparr> status = 404, body = Document (JObj [(''message'', JStr ''Not Found'')]) () \<rparr>
   \<and> \<not> ok \<lparr> status = 404, body = Document (JObj [(''message'', JStr ''Not Found'')]) () \<rparr>
   \<and> makeRequest
        (answering \<lparr> status = 404, body = Document (JObj [(''message'', JStr ''Not Found'')]) () \<rparr>)
        None ''/repos/octocat/gone'' [] = Inl (Error ''Not Found'')"
proof -
  have f: "answering
             \<lparr> status = 404, body = Document (JObj [(''message'', JStr ''Not Found'')]) () \<rparr>
             \<lparr> url = baseUrl @ ''/repos/octocat/gone'', query_params = [],
               headers = requestHeaders None \<rparr>
           = Inr \<lparr> status = 404, body = Document (JObj [(''message'', JStr ''Not Found'')]) () \<rparr>"
    by (simp add: answering_def)
  have a: "\<not> ok \<lparr> status = 404, body = Document (JObj [(''message'', JStr ''Not Found'')]) () \<rparr>"
    by (simp add: ok_def)
  show ?thesis
    using f a
      makeRequest_error_message
        [of "answering \<lparr> status = 404,
                         body = Document (JObj [(''message'', JStr ''Not Found'')]) () \<rparr>"
            "''/repos/octocat/gone''" "[]" None, OF f a]
    by simp
qed

text \<open>
  Claim C3 as stated fails at a response of status 502 whose body is not JSON (a gateway's
  HTML page): the message is \<open>Unknown error\<close>, not \<open>HTTP 502\<close>.
\<close>

theorem makeRequest_unparseable_body_counterexample:
  "\<not> ok (\<lparr> status = 502, body = NotJson \<rparr> :: unit response)
   \<and> makeRequest (answering (\<lparr> status = 502, body = NotJson \<rparr> :: unit response)) None
        ''/user'' []
        = Inl (Error ''Unknown error'')
   \<and> ''HTTP '' @ decimal 502 = ''HTTP 502''
   \<and> Error ''Unknown error'' \<noteq> Error ''HTTP 502''"
  by (simp add: makeRequest_def answering_def ok_def)

section \<open>Properties of the query builder\<close>

lemma issueQuery_Go_help_wanted:
  "issueQuery (Some ''Go'') (Some ''help wanted'')
     = ''is:issue is:open label:\"help wanted\" language:Go comments:>=1 comments:<=10''"
  by (simp add: issueQuery_def labelClause_def languageClause_def)

text \<open>
  Claim C9. For the language \<open>Go\<close> and the label \<open>help wanted\<close> the query of the
  single-stage issue search is
  \<open>is:issue is:open label:"help wanted" language:Go comments:>=1 comments:<=10\<close>. The
  label clause, the language clause and the quality filter each occur in it exactly once,
  so does each of the qualifiers \<open>label:\<close>, \<open>language:\<close>, \<open>comments:>=\<close> and
  \<open>comments:<=\<close>, and no two of its space-separated words are equal.
\<close>

theorem issueQuery_Go_help_wanted_clauses:
  "issueQuery (Some ''Go'') (Some ''help wanted'')
     = ''is:issue is:open label:\"help wanted\" language:Go comments:>=1 comments:<=10''
   \<and> occurrences ''label:\"help wanted\"'' (issueQuery (Some ''Go'') (Some ''help wanted'')) = 1
   \<and> occurrences ''language:Go'' (issueQuery (Some ''Go'') (Some ''help wanted'')) = 1
   \<and> occurrences ''comments:>=1 comments:<=10''
         (issueQuery (Some ''Go'') (Some ''help wanted'')) = 1
   \<and> occurrences ''label:'' (issueQuery (Some ''Go'') (Some ''help wanted'')) = 1
   \<and> occurrences ''language:'' (issueQuery (Some ''Go'') (Some ''help wanted'')) = 1
   \<and> occurrences ''comments:>='' (issueQuery (Some ''Go'') (Some ''help wanted'')) = 1
   \<and> occurrences ''comments:<='' (issueQuery (Some ''Go'') (Some ''help wanted'')) = 1
   \<and> distinct (split CHR '' '' (issueQuery (Some ''Go'') (Some ''help wanted'')))"
  unfolding issueQuery_Go_help_wanted by simp

text \<open>
  Outside the combination of primary key \<open>updated\<close> and secondary key \<open>stars\<close>, this query
  is the \<open>q\<close> parameter of the one request that \<open>searchBeginnerIssues\<close> sends.
\<close>

lemma searchBeginnerIssues_request:
  "\<not> (p = SortUpdated \<and> s = Some SortStars) \<Longrightarrow>
   searchBeginnerIssues rt language label p s =
     (case makeRequest (fetch_issues rt) (token rt) ''/search/issues''
             [(''q'', issueQuery language label),
              (''sort'', if p = SortStars then ''reactions'' else issue_sort_name p),
              (''order'', ''desc''), (''per_page'', ''100'')] of
        Inl e \<Rightarrow> Inl e
      | Inr items \<Rightarrow> Inr (take 50 (sort_by (issueComparator p s) items)))"
  by (auto simp: searchBeginnerIssues.simps issueSearch_def)

section \<open>Properties of the two-stage search\<close>

lemma two_stage_entry:
  "searchBeginnerIssues rt language label SortUpdated (Some SortStars)
     = searchRecentIssuesFromStarredRepos rt language label"
  by (simp add: searchBeginnerIssues.simps)

text \<open>
  Claim C2, as amended. The claim says that the two-stage search gives the result of the
  single-stage search with sort key \<open>updated\<close> whenever State A finds no repository. The
  code falls back only in its \<open>catch\<close>: with no candidate it still sends the State B
  request, with the empty repository filter \<open>()\<close>, and returns what that request finds.
  What holds: if the State A request fails, or the State B request fails (in particular
  when State A found no repository and the request with the empty filter is refused), the
  result of the two-stage search is the result of the single-stage search for the same
  language and label with sort key \<open>updated\<close>; and if both requests succeed (in particular
  when State A found no repository and the request with the empty filter is answered), the
  result is the list of the items of State B, each joined with its repository's stars,
  in the order of the hybrid score.
\<close>

theorem two_stage_fallback_and_success:
  "(candidateRepositories rt language = Inl e
      \<or> (candidateRepositories rt language = Inr repos
         \<and> scopedIssues rt label repos = Inl e)
    \<longrightarrow> searchBeginnerIssues rt language label SortUpdated (Some SortStars)
          = searchBeginnerIssues rt language label SortUpdated None)
   \<and> (candidateRepositories rt language = Inr repos
       \<and> scopedIssues rt label repos = Inr items
    \<longrightarrow> searchBeginnerIssues rt language label SortUpdated (Some SortStars)
          = Inr (sort_by (hybridComparator rt) (map (enhanceIssue repos) items)))"
  by (auto simp: two_stage_entry searchRecentIssuesFromStarredRepos.simps)

lemma scopedIssueQuery_empty:
  "scopedIssueQuery None []
     = ''is:issue is:open label:\"good first issue\" () comments:>=1 comments:<=15''"
  by (simp add: scopedIssueQuery_def labelClause_def)

lemma issueQuery_default:
  "issueQuery None None
     = ''is:issue is:open label:\"good first issue\" comments:>=1 comments:<=10''"
  by (simp add: issueQuery_def labelClause_def languageClause_def)

lemma no_candidates:
  "candidateRepositories (platformWithoutCandidates r) None = Inr []"
  by (simp add: candidateRepositories_def platformWithoutCandidates_def exactRuntime_def
      makeRequest_def okItems_def ok_def)

lemma scoped_search_empty:
  "scopedIssues (platformWithoutCandidates (okItems [])) None [] = Inr []"
  by (simp add: scopedIssues_def platformWithoutCandidates_def exactRuntime_def
      makeRequest_def okItems_def ok_def)

lemma scoped_search_refused:
  "scopedIssues (platformWithoutCandidates validationFailed) None []
     = Inl (Error ''Validation Failed'')"
  by (simp add: scopedIssues_def platformWithoutCandidates_def exactRuntime_def
      makeRequest_def validationFailed_def ok_def)

lemma single_stage_without_candidates:
  "searchBeginnerIssues (platformWithoutCandidates r) None None SortUpdated None
     = Inr [issueWith ''Fix typo in README'' [''good first issue'']]"
  by (simp add: searchBeginnerIssues.simps issueSearch_def platformWithoutCandidates_def
      exactRuntime_def makeRequest_def okItems_def ok_def scopedIssueQuery_empty
      issueQuery_default sort_by_def)

lemma two_scoped_candidates:
  "candidateRepositories twoScopedIssuesPlatform None = Inr []"
  by (simp add: candidateRepositories_def twoScopedIssuesPlatform_def exactRuntime_def
      makeRequest_def okItems_def ok_def)

lemma two_scoped_issues:
  "scopedIssues twoScopedIssuesPlatform None []
     = Inr [issueAt ''A'' ''acme/app'' 21600000000 None,
            issueAt ''B'' ''acme/app'' 25056000000 None]"
  by (simp add: scopedIssues_def twoScopedIssuesPlatform_def exactRuntime_def
      makeRequest_def okItems_def ok_def)

lemma two_scoped_enhance:
  "enhanceIssue [] (issueAt t ''acme/app'' u None)
     = (issueAt t ''acme/app'' u None) \<lparr> repository_stars := Some 0 \<rparr>"
  by (simp add: enhanceIssue_def)

lemma two_scoped_score_A:
  "calculateHybridScore twoScopedIssuesPlatform
     ((issueAt ''A'' ''acme/app'' 21600000000 None) \<lparr> repository_stars := Some 0 \<rparr>) 0 = 30"
  by (simp add: calculateHybridScore_def twoScopedIssuesPlatform_def exactRuntime_def
      issueAt_def issueWith_def)

lemma two_scoped_score_B:
  "calculateHybridScore twoScopedIssuesPlatform
     ((issueAt ''B'' ''acme/app'' 25056000000 None) \<lparr> repository_stars := Some 0 \<rparr>) 0 = 54"
  by (simp add: calculateHybridScore_def twoScopedIssuesPlatform_def exactRuntime_def
      issueAt_def issueWith_def)

lemma two_scoped_sorted:
  "sort_by (hybridComparator twoScopedIssuesPlatform)
     (map (enhanceIssue [])
        [issueAt ''A'' ''acme/app'' 21600000000 None,
         issueAt ''B'' ''acme/app'' 25056000000 None])
     = [(issueAt ''B'' ''acme/app'' 25056000000 None) \<lparr> repository_stars := Some 0 \<rparr>,
        (issueAt ''A'' ''acme/app'' 21600000000 None) \<lparr> repository_stars := Some 0 \<rparr>]"
proof -
  have "fl twoScopedIssuesPlatform = (\<lambda>x. x)"
    by (simp add: twoScopedIssuesPlatform_def exactRuntime_def)
  then have "hybridComparator twoScopedIssuesPlatform
          ((issueAt ''A'' ''acme/app'' 21600000000 None) \<lparr> repository_stars := Some 0 \<rparr>)
          ((issueAt ''B'' ''acme/app'' 25056000000 None) \<lparr> repository_stars := Some 0 \<rparr>)
        = 24"
    by (simp add: hybridComparator_def two_scoped_score_A two_scoped_score_B)
  then show ?thesis
    by (simp add: sort_by_def two_scoped_enhance)
qed

text \<open>
  The amended claim on two platforms where State A finds no repository. On the first the
  State B request with the empty filter is refused with status 422, and the result is the
  single-stage result. On the second it is answered with the issues A and B, and the
  result is these two with 0 stars each, B (score 54) before A (score 30), not the
  single-stage result.
\<close>

theorem two_stage_fallback_and_success_witness:
  "candidateRepositories (platformWithoutCandidates validationFailed) None = Inr []
   \<and> scopedIssues (platformWithoutCandidates validationFailed) None []
        = Inl (Error ''Validation Failed'')
   \<and> searchBeginnerIssues (platformWithoutCandidates validationFailed) None None
        SortUpdated (Some SortStars)
      = searchBeginnerIssues (platformWithoutCandidates validationFailed) None None
          SortUpdated None
   \<and> searchBeginnerIssues (platformWithoutCandidates validationFailed) None None
        SortUpdated None
      = Inr [issueWith ''Fix typo in README'' [''good first issue'']]
   \<and> candidateRepositories twoScopedIssuesPlatform None = Inr []
   \<and> scopedIssues twoScopedIssuesPlatform None []
        = Inr [issueAt ''A'' ''acme/app'' 21600000000 None,
               issueAt ''B'' ''acme/app'' 25056000000 None]
   \<and> searchBeginnerIssues twoScopedIssuesPlatform None None SortUpdated (Some SortStars)
      = Inr [(issueAt ''B'' ''acme/app'' 25056000000 None) \<lparr> repository_stars := Some 0 \<rparr>,
             (issueAt ''A'' ''acme/app'' 21600000000 None) \<lparr> repository_stars := Some 0 \<rparr>]"
  using no_candidates [of validationFailed] scoped_search_refused
    single_stage_without_candidates [of validationFailed]
    two_scoped_candidates two_scoped_issues two_scoped_sorted
    two_stage_fallback_and_success
      [of "platformWithoutCandidates validationFailed" None "Error ''Validation Failed''" "[]"
          None]
    two_stage_fallback_and_success
      [of twoScopedIssuesPlatform None TypeError "[]" None
          "[issueAt ''A'' ''acme/app'' 21600000000 None,
            issueAt ''B'' ''acme/app'' 25056000000 None]"]
  by simp

text \<open>
  Claim C2 as stated fails on a platform where State A finds no repository, the State B
  request with the empty filter succeeds with no item, and the single-stage search finds
  one issue: the two-stage search returns no item, the single-stage search returns the
  issue.
\<close>

theorem two_stage_no_candidates_counterexample:
  "candidateRepositories (platformWithoutCandidates (okItems [])) None = Inr []
   \<and> searchBeginnerIssues (platformWithoutCandidates (okItems [])) None None
        SortUpdated (Some SortStars) = Inr []
   \<and> searchBeginnerIssues (platformWithoutCandidates (okItems [])) None None
        SortUpdated None
      = Inr [issueWith ''Fix typo in README'' [''good first issue'']]"
  by (simp add: no_candidates scoped_search_empty single_stage_without_candidates
      two_stage_entry searchRecentIssuesFromStarredRepos.simps sort_by_def)

section \<open>Properties of the sort\<close>

lemma set_insert_by: "set (insert_by cmp x ys) = insert x (set ys)"
  by (induction ys) auto

lemma set_sort_by: "set (sort_by cmp xs) = set xs"
  by (induction xs) (auto simp: sort_by_def set_insert_by)

lemma length_insert_by: "length (insert_by cmp x ys) = Suc (length ys)"
  by (induction ys) auto

lemma length_sort_by: "length (sort_by cmp xs) = length xs"
  by (induction xs) (auto simp: sort_by_def length_insert_by)

lemma sorted_insert_by:
  assumes total: "\<And>a b. cmp a b \<le> 0 \<or> cmp b a \<le> 0"
    and trans: "\<And>a b c. cmp a b \<le> 0 \<Longrightarrow> cmp b c \<le> 0 \<Longrightarrow> cmp a c \<le> 0"
    and "sorted_wrt (\<lambda>a b. cmp a b \<le> 0) ys"
  shows "sorted_wrt (\<lambda>a b. cmp a b \<le> 0) (insert_by cmp x ys)"
  using assms(3)
proof (induction ys)
  case Nil
  then show ?case by simp
next
  case (Cons y ys)
  show ?case
  proof (cases "cmp x y \<le> 0")
    case True
    then have "\<forall>z\<in>set ys. cmp x z \<le> 0"
      using Cons.prems trans by auto
    with True Cons.prems show ?thesis by simp
  next
    case False
    then have "cmp y x \<le> 0" using total by blast
    with False Cons show ?thesis
      by (auto simp: set_insert_by)
  qed
qed

lemma sorted_sort_by:
  assumes "\<And>a b. cmp a b \<le> 0 \<or> cmp b a \<le> 0"
    and "\<And>a b c. cmp a b \<le> 0 \<Longrightarrow> cmp b c \<le> 0 \<Longrightarrow> cmp a c \<le> 0"
  shows "sorted_wrt (\<lambda>a b. cmp a b \<le> 0) (sort_by cmp xs)"
proof (induction xs)
  case Nil
  then show ?case by (simp add: sort_by_def)
next
  case (Cons x xs)
  have "sort_by cmp (x # xs) = insert_by cmp x (sort_by cmp xs)"
    by (simp add: sort_by_def)
  with Cons sorted_insert_by [of cmp, OF assms] show ?case by simp
qed

lemma filter_insert_by:
  assumes "\<And>y. y \<in> set ys \<Longrightarrow> P x \<Longrightarrow> P y \<Longrightarrow> cmp x y \<le> 0"
  shows "filter P (insert_by cmp x ys) = (if P x then x # filter P ys else filter P ys)"
  using assms by (induction ys) auto

lemma filter_sort_by:
  assumes "\<And>x y. P x \<Longrightarrow> P y \<Longrightarrow> cmp x y \<le> 0"
  shows "filter P (sort_by cmp xs) = filter P xs"
proof (induction xs)
  case Nil
  then show ?case by (simp add: sort_by_def)
next
  case (Cons x xs)
  have "sort_by cmp (x # xs) = insert_by cmp x (sort_by cmp xs)"
    by (simp add: sort_by_def)
  then show ?case
    using Cons filter_insert_by [of "sort_by cmp xs" P x cmp] assms by simp
qed

lemma prefix_filter_take: "prefix (filter P (take n xs)) (filter P xs)"
proof -
  have "filter P xs = filter P (take n xs) @ filter P (drop n xs)"
    by (metis append_take_drop_id filter_append)
  then show ?thesis by (simp add: prefix_def)
qed

lemma issueComparator_le:
  "issueComparator p s a b \<le> 0 \<longleftrightarrow>
     issueSortKey p b < issueSortKey p a
     \<or> (issueSortKey p b = issueSortKey p a
        \<and> (case s of None \<Rightarrow> True | Some k \<Rightarrow> k = p \<or> issueSortKey k b \<le> issueSortKey k a))"
  by (auto simp: issueComparator_def Let_def split: option.splits)

lemma issueComparator_total:
  "issueComparator p s a b \<le> 0 \<or> issueComparator p s b a \<le> 0"
  unfolding issueComparator_le by (auto split: option.splits)

lemma issueComparator_trans:
  "issueComparator p s a b \<le> 0 \<Longrightarrow> issueComparator p s b c \<le> 0 \<Longrightarrow> issueComparator p s a c \<le> 0"
  unfolding issueComparator_le by (auto split: option.splits)

lemma issueComparator_sameKeys:
  "sameKeys p s z x \<Longrightarrow> sameKeys p s z y \<Longrightarrow> issueComparator p s x y \<le> 0"
  unfolding issueComparator_le sameKeys_def by (auto split: option.splits)

lemma sorted_issues:
  "sorted_wrt (\<lambda>a b. issueComparator p s a b \<le> 0) (take n (sort_by (issueComparator p s) items))"
  by (rule sorted_wrt_take) (rule sorted_sort_by [OF issueComparator_total issueComparator_trans])

text \<open>
  Claim C7, as amended. For the issue search with a primary key \<open>p\<close> and an optional
  secondary key \<open>s\<close>, other than the combination of \<open>updated\<close> with \<open>stars\<close>, and a
  platform response \<open>items\<close>: the returned list is ordered by the primary key, descending;
  a secondary key other than the primary one orders, descending, the items whose primary
  keys are equal; the items that tie (equal primary key and, if a secondary key is given,
  equal secondary key) keep the order the platform returned, so with no secondary key the
  primary-equal items keep it; and the list holds the first 50 items of that order.
\<close>

theorem searchBeginnerIssues_sort_composition:
  assumes "\<not> (p = SortUpdated \<and> s = Some SortStars)"
    and "issueSearch rt language label p = Inr items"
  shows "\<exists>result. searchBeginnerIssues rt language label p s = Inr result
     \<and> sorted_wrt (\<lambda>a b. issueSortKey p b \<le> issueSortKey p a) result
     \<and> (case s of
          None \<Rightarrow> True
        | Some k \<Rightarrow>
            sorted_wrt (\<lambda>a b. issueSortKey p a = issueSortKey p b
                            \<longrightarrow> issueSortKey k b \<le> issueSortKey k a) result)
     \<and> (\<forall>z. prefix (filter (sameKeys p s z) result) (filter (sameKeys p s z) items))
     \<and> set result \<subseteq> set items
     \<and> length result = min 50 (length items)"
proof -
  let ?result = "take 50 (sort_by (issueComparator p s) items)"
  have r: "searchBeginnerIssues rt language label p s = Inr ?result"
    using assms by (auto simp: searchBeginnerIssues.simps)
  have srt: "sorted_wrt (\<lambda>a b. issueComparator p s a b \<le> 0) ?result"
    by (rule sorted_issues)
  have 1: "sorted_wrt (\<lambda>a b. issueSortKey p b \<le> issueSortKey p a) ?result"
    by (rule sorted_wrt_mono_rel [OF _ srt]) (auto simp: issueComparator_le)
  have 2: "(case s of
          None \<Rightarrow> True
        | Some k \<Rightarrow>
            sorted_wrt (\<lambda>a b. issueSortKey p a = issueSortKey p b
                            \<longrightarrow> issueSortKey k b \<le> issueSortKey k a) ?result)"
  proof (cases s)
    case None
    then show ?thesis by simp
  next
    case (Some k)
    have "sorted_wrt (\<lambda>a b. issueSortKey p a = issueSortKey p b
                            \<longrightarrow> issueSortKey k b \<le> issueSortKey k a) ?result"
      by (rule sorted_wrt_mono_rel [OF _ srt]) (auto simp: issueComparator_le Some)
    with Some show ?thesis by simp
  qed
  have 3: "prefix (filter (sameKeys p s z) ?result) (filter (sameKeys p s z) items)" for z
  proof -
    have "filter (sameKeys p s z) (sort_by (issueComparator p s) items)
            = filter (sameKeys p s z) items"
      by (rule filter_sort_by) (rule issueComparator_sameKeys)
    with prefix_filter_take [of "sameKeys p s z" 50 "sort_by (issueComparator p s) items"]
    show ?thesis by simp
  qed
  have 4: "set ?result \<subseteq> set items"
    using set_take_subset [of 50 "sort_by (issueComparator p s) items"]
    by (simp add: set_sort_by)
  have 5: "length ?result = min 50 (length items)"
    by (simp add: length_sort_by min.commute)
  from r 1 2 3 4 5 show ?thesis by blast
qed

lemma three_issues_response:
  "issueSearch threeIssuesPlatform None None SortStars = Inr threeIssues"
  by (simp add: issueSearch_def threeIssuesPlatform_def exactRuntime_def makeRequest_def
      okItems_def ok_def)

lemma three_issues_sorted:
  "searchBeginnerIssues threeIssuesPlatform None None SortStars (Some SortUpdated)
     = Inr [issueAt ''B'' ''acme/app'' 50 (Some 7), issueAt ''C'' ''acme/app'' 200 (Some 5),
            issueAt ''A'' ''acme/app'' 100 (Some 5)]"
  by (simp add: searchBeginnerIssues.simps three_issues_response threeIssues_def sort_by_def
      issueComparator_def issueAt_def issueWith_def)

text \<open>
  The amended claim with primary key \<open>stars\<close> and secondary key \<open>updated\<close> on the platform
  of the three issues: B, with the most reactions, comes first; A and C, equal in
  reactions, follow with the later updated C before A.
\<close>

theorem searchBeginnerIssues_sort_composition_witness:
  "\<not> (SortStars = SortUpdated \<and> Some SortUpdated = Some SortStars)
   \<and> issueSearch threeIssuesPlatform None None SortStars = Inr threeIssues
   \<and> searchBeginnerIssues threeIssuesPlatform None None SortStars (Some SortUpdated)
     = Inr [issueAt ''B'' ''acme/app'' 50 (Some 7), issueAt ''C'' ''acme/app'' 200 (Some 5),
            issueAt ''A'' ''acme/app'' 100 (Some 5)]
   \<and> (\<exists>result.
        searchBeginnerIssues threeIssuesPlatform None None SortStars (Some SortUpdated)
          = Inr result
        \<and> sorted_wrt (\<lambda>a b. issueSortKey SortStars b \<le> issueSortKey SortStars a) result
        \<and> sorted_wrt (\<lambda>a b. issueSortKey SortStars a = issueSortKey SortStars b
                 \<longrightarrow> issueSortKey SortUpdated b \<le> issueSortKey SortUpdated a) result
        \<and> (\<forall>z. prefix (filter (sameKeys SortStars (Some SortUpdated) z) result)
                        (filter (sameKeys SortStars (Some SortUpdated) z) threeIssues))
        \<and> set result \<subseteq> set threeIssues
        \<and> length result = min 50 (length threeIssues))"
proof -
  have a: "\<not> (SortStars = SortUpdated \<and> Some SortUpdated = Some SortStars)"
    by simp
  show ?thesis
    using a three_issues_response three_issues_sorted
      searchBeginnerIssues_sort_composition [OF a three_issues_response]
    by simp
qed

lemma hybrid_candidates:
  "candidateRepositories hybridPlatform None = Inr [repoWith ''big/repo'' 1000 0]"
  by (simp add: candidateRepositories_def hybridPlatform_def exactRuntime_def makeRequest_def
      okItems_def ok_def)

lemma hybrid_scoped:
  "scopedIssues hybridPlatform None [repoWith ''big/repo'' 1000 0]
     = Inr [issueAt ''A'' ''small/repo'' 8640000000 None, issueAt ''B'' ''big/repo'' 0 None]"
  by (simp add: scopedIssues_def hybridPlatform_def exactRuntime_def makeRequest_def
      okItems_def ok_def)

lemma hybrid_fl: "fl hybridPlatform = (\<lambda>x. x)"
  by (simp add: hybridPlatform_def exactRuntime_def)

lemma hybrid_enhance_A:
  "enhanceIssue [repoWith ''big/repo'' 1000 0] (issueAt ''A'' ''small/repo'' 8640000000 None)
     = (issueAt ''A'' ''small/repo'' 8640000000 None) \<lparr> repository_stars := Some 0 \<rparr>"
  by (simp add: enhanceIssue_def issueAt_def issueWith_def repoWith_def)

lemma hybrid_enhance_B:
  "enhanceIssue [repoWith ''big/repo'' 1000 0] (issueAt ''B'' ''big/repo'' 0 None)
     = (issueAt ''B'' ''big/repo'' 0 None) \<lparr> repository_stars := Some 1000 \<rparr>"
  by (simp add: enhanceIssue_def issueAt_def issueWith_def repoWith_def)

lemma hybrid_score_A:
  "calculateHybridScore hybridPlatform
     ((issueAt ''A'' ''small/repo'' 8640000000 None) \<lparr> repository_stars := Some 0 \<rparr>) 0 = 0"
  by (simp add: calculateHybridScore_def hybridPlatform_def exactRuntime_def issueAt_def
      issueWith_def)

lemma hybrid_score_B:
  "calculateHybridScore hybridPlatform
     ((issueAt ''B'' ''big/repo'' 0 None) \<lparr> repository_stars := Some 1000 \<rparr>) 1000
     = log 10 1000 * 4"
  by (simp add: calculateHybridScore_def hybridPlatform_def exactRuntime_def issueAt_def
      issueWith_def)

text \<open>
  Claim C7 as stated fails for the primary key \<open>updated\<close> with the secondary key \<open>stars\<close>,
  which \<open>searchBeginnerIssues\<close> hands to the two-stage search. On the platform above both
  issues are older than 100 days, so both recency scores are 0; issue B belongs to the
  repository with 1000 stars and scores \<open>0.4 * 30\<close>, issue A scores 0. The result lists B
  before A although A was updated later: the list is not ordered by the primary key.
\<close>

theorem hybrid_order_counterexample:
  "searchBeginnerIssues hybridPlatform None None SortUpdated (Some SortStars)
     = Inr [(issueAt ''B'' ''big/repo'' 0 None) \<lparr> repository_stars := Some 1000 \<rparr>,
            (issueAt ''A'' ''small/repo'' 8640000000 None) \<lparr> repository_stars := Some 0 \<rparr>]
   \<and> issueSortKey SortUpdated
         ((issueAt ''B'' ''big/repo'' 0 None) \<lparr> repository_stars := Some 1000 \<rparr>)
       < issueSortKey SortUpdated
           ((issueAt ''A'' ''small/repo'' 8640000000 None) \<lparr> repository_stars := Some 0 \<rparr>)"
proof -
  have "hybridComparator hybridPlatform
          ((issueAt ''A'' ''small/repo'' 8640000000 None) \<lparr> repository_stars := Some 0 \<rparr>)
          ((issueAt ''B'' ''big/repo'' 0 None) \<lparr> repository_stars := Some 1000 \<rparr>)
        = log 10 1000 * 4"
    by (simp add: hybridComparator_def hybrid_score_A hybrid_score_B hybrid_fl)
  then have "\<not> hybridComparator hybridPlatform
          ((issueAt ''A'' ''small/repo'' 8640000000 None) \<lparr> repository_stars := Some 0 \<rparr>)
          ((issueAt ''B'' ''big/repo'' 0 None) \<lparr> repository_stars := Some 1000 \<rparr>) \<le> 0"
    by simp
  then have "searchBeginnerIssues hybridPlatform None None SortUpdated (Some SortStars)
     = Inr [(issueAt ''B'' ''big/repo'' 0 None) \<lparr> repository_stars := Some 1000 \<rparr>,
            (issueAt ''A'' ''small/repo'' 8640000000 None) \<lparr> repository_stars := Some 0 \<rparr>]"
    by (simp add: searchBeginnerIssues.simps searchRecentIssuesFromStarredRepos.simps
        hybrid_candidates hybrid_scoped hybrid_enhance_A hybrid_enhance_B sort_by_def)
  moreover have "issueSortKey SortUpdated
         ((issueAt ''B'' ''big/repo'' 0 None) \<lparr> repository_stars := Some 1000 \<rparr>)
       < issueSortKey SortUpdated
           ((issueAt ''A'' ''small/repo'' 8640000000 None) \<lparr> repository_stars := Some 0 \<rparr>)"
    by (simp add: issueAt_def)
  ultimately show ?thesis by simp
qed

text \<open>
  The repository search sorts by its secondary key alone: with primary key \<open>stars\<close> and
  secondary key \<open>updated\<close> the repository with 5 stars, updated later, is returned before
  the one with 10 stars.
\<close>

lemma searchRepositories_secondary_only:
  "searchRepositories twoReposPlatform ''topic:cli'' RepoStars (Some RepoUpdated)
     = Inr [repoWith ''acme/recent'' 5 2, repoWith ''acme/popular'' 10 1]"
  by (simp add: searchRepositories_def twoReposPlatform_def exactRuntime_def makeRequest_def
      okItems_def ok_def sort_by_def repoWith_def)

section \<open>Properties of the hybrid score\<close>

lemma calculateHybridScore_spec:
  "calculateHybridScore rt issue repoStars = hybridScore_spec rt issue repoStars"
  by (simp add: calculateHybridScore_def hybridScore_spec_def recencyComponent_def
      popularityComponent_def daysSinceUpdate_def Let_def mult.commute)

text \<open>
  In exact arithmetic the score is the formula over the reals, with the days between the
  clock and the update instant as a fraction.
\<close>

lemma calculateHybridScore_exact:
  "fl rt = (\<lambda>x. x) \<Longrightarrow>
   calculateHybridScore rt issue repoStars =
     0.6 * max 0 (100 - (real_of_int (now rt) - real_of_int (updated_at issue)) / 86400000)
     + 0.4 * (log10 rt (max 1 (real_of_int repoStars)) * 10)"
  by (simp add: calculateHybridScore_def Let_def)

text \<open>
  Claim C4. For every issue and star count the value of \<open>calculateHybridScore\<close> is
  \<open>0.6 * max(0, 100 - daysSinceUpdate) + 0.4 * (log10(max(1, repoStars)) * 10)\<close>, computed
  in double arithmetic, where \<open>daysSinceUpdate\<close> is the difference between the clock and
  the update instant divided by the milliseconds of a day, with no rounding to whole days;
  and the recency component is never negative.
\<close>

theorem calculateHybridScore_formula:
  "calculateHybridScore rt issue repoStars
     = fl rt (fl rt (fl rt 0.6 * max 0 (fl rt (100 - daysSinceUpdate rt issue)))
              + fl rt (fl rt 0.4 * fl rt (log10 rt (max 1 (real_of_int repoStars)) * 10)))
   \<and> daysSinceUpdate rt issue
       = fl rt (fl rt (real_of_int (now rt) - real_of_int (updated_at issue)) / 86400000)
   \<and> calculateHybridScore rt issue repoStars = hybridScore_spec rt issue repoStars
   \<and> 0 \<le> recencyComponent rt issue"
  by (simp add: calculateHybridScore_def hybridScore_spec_def recencyComponent_def
      popularityComponent_def daysSinceUpdate_def Let_def mult.commute)

text \<open>
  Claim C5. For two issues scored at the same instant with the same star count, the one
  whose update instant is later or equal has a score greater than or equal to the other's.
  The rounding of double arithmetic enters only through its being monotone and exact at 0.
\<close>

theorem calculateHybridScore_monotone:
  assumes m: "mono (fl rt)" and z: "fl rt 0 = 0"
    and u: "updated_at b \<le> updated_at a"
  shows "calculateHybridScore rt b repoStars \<le> calculateHybridScore rt a repoStars"
proof -
  note M = monoD [OF m]
  have c: "0 \<le> fl rt 0.6"
    using M [of 0 "0.6"] z by simp
  have "fl rt (real_of_int (now rt) - real_of_int (updated_at a))
          \<le> fl rt (real_of_int (now rt) - real_of_int (updated_at b))"
    using u by (intro M) simp
  then have "daysSinceUpdate rt a \<le> daysSinceUpdate rt b"
    unfolding daysSinceUpdate_def by (intro M) (simp add: divide_right_mono)
  then have "fl rt (100 - daysSinceUpdate rt b) \<le> fl rt (100 - daysSinceUpdate rt a)"
    by (intro M) simp
  then have "recencyComponent rt b \<le> recencyComponent rt a"
    unfolding recencyComponent_def by (simp add: max.coboundedI2)
  then have "fl rt 0.6 * recencyComponent rt b \<le> fl rt 0.6 * recencyComponent rt a"
    using c by (simp add: mult_left_mono)
  then have "fl rt (fl rt 0.6 * recencyComponent rt b)
               \<le> fl rt (fl rt 0.6 * recencyComponent rt a)"
    by (intro M)
  then have "hybridScore_spec rt b repoStars \<le> hybridScore_spec rt a repoStars"
    unfolding hybridScore_spec_def by (intro M) simp
  then show ?thesis
    by (simp add: calculateHybridScore_spec)
qed

text \<open>
  The claim on the two-stage platform: issue A, updated on day 100, scores at least as high
  as issue B, updated on day 0, at equal star counts.
\<close>

theorem calculateHybridScore_monotone_witness:
  "mono (fl hybridPlatform)
   \<and> fl hybridPlatform 0 = 0
   \<and> updated_at (issueAt ''B'' ''big/repo'' 0 None)
       \<le> updated_at (issueAt ''A'' ''small/repo'' 8640000000 None)
   \<and> calculateHybridScore hybridPlatform (issueAt ''B'' ''big/repo'' 0 None) 1000
       \<le> calculateHybridScore hybridPlatform (issueAt ''A'' ''small/repo'' 8640000000 None) 1000"
proof -
  have m: "mono (fl hybridPlatform)"
    by (simp add: hybrid_fl monoI)
  have z: "fl hybridPlatform 0 = 0"
    by (simp add: hybrid_fl)
  have u: "updated_at (issueAt ''B'' ''big/repo'' 0 None)
             \<le> updated_at (issueAt ''A'' ''small/repo'' 8640000000 None)"
    by (simp add: issueAt_def)
  show ?thesis
    using m z u calculateHybridScore_monotone [OF m z u, of 1000] by simp
qed

section \<open>Properties of the aggregation\<close>

lemma concat_batchesFrom: "concat (batchesFrom i xs) = drop i xs"
proof (induction i xs rule: batchesFrom.induct)
  case (1 i xs)
  show ?case
  proof (cases "i < length xs")
    case True
    have "take batchSize (drop i xs) @ drop (i + batchSize) xs = drop i xs"
      using append_take_drop_id [of batchSize "drop i xs"] by (simp add: add.commute)
    with True 1 show ?thesis
      by (subst batchesFrom.simps) (simp add: slice_def)
  next
    case False
    then show ?thesis
      by (subst batchesFrom.simps) simp
  qed
qed

text \<open>Every batch holds between one and three repositories.\<close>

lemma batches_bounded:
  "b \<in> set (batchesFrom i xs) \<Longrightarrow> length b \<le> batchSize \<and> b \<noteq> []"
proof (induction i xs rule: batchesFrom.induct)
  case (1 i xs)
  from "1.prems" have lt: "i < length xs"
    by (subst (asm) batchesFrom.simps) (auto split: if_splits)
  from "1.prems" lt
  have "b = slice i (i + batchSize) xs \<or> b \<in> set (batchesFrom (i + batchSize) xs)"
    by (subst (asm) batchesFrom.simps) auto
  then show ?case
  proof
    assume "b = slice i (i + batchSize) xs"
    with lt show ?thesis
      by (simp add: slice_def batchSize_def)
  next
    assume "b \<in> set (batchesFrom (i + batchSize) xs)"
    with 1 lt show ?thesis by simp
  qed
qed

lemma concat_map_concat:
  "concat (map (\<lambda>batch. concat (map f batch)) bs) = concat (map f (concat bs))"
  by (induction bs) auto

lemma fetchRepoIssues_failed:
  "isl (repositoryIssues rt repo) \<Longrightarrow> fetchRepoIssues svc rt repo = []"
  by (auto simp: fetchRepoIssues_def split: sum.splits)

lemma concat_map_filter_nonempty:
  assumes "\<And>x. x \<in> set xs \<Longrightarrow> \<not> P x \<Longrightarrow> f x = []"
  shows "concat (map f (filter P xs)) = concat (map f xs)"
  using assms by (induction xs) auto

text \<open>No repository contributes more than 20 issues.\<close>

lemma fetchRepoIssues_capped: "length (fetchRepoIssues svc rt repo) \<le> 20"
  by (simp add: fetchRepoIssues_def split: sum.splits)

text \<open>
  Claim C6, as amended. The claim says that the aggregation returns exactly the union of
  the successful repositories' classified and category-filtered issues. The code cuts
  every repository's list to its first 20 issues before it classifies them. What holds,
  when the user has at least one repository and for every classification service: the
  issues that \<open>fetchAllIssues\<close> stores are, in the order of the repositories, the
  classified and category-filtered first 20 issues of every repository whose fetch
  succeeded; every repository whose fetch failed contributes the empty list; and the run
  ends with \<open>loading\<close> reset, whatever fetches failed (the model has no path on which
  \<open>fetchAllIssues\<close> throws).
\<close>

theorem fetchAllIssues_tolerates_failures:
  assumes "repositories userData = Some repos" and "repos \<noteq> []"
  shows "allIssues (fetchAllIssues svc rt userData st)
           = concat (map (\<lambda>repo.
                 case repositoryIssues rt repo of
                   Inl e \<Rightarrow> []
                 | Inr githubIssues \<Rightarrow>
                     filter (\<lambda>issue. i_type issue \<in> set (issueTypes userData))
                       (map (toIssue svc rt repo) (take 20 githubIssues)))
               (filter (\<lambda>repo. \<not> isl (repositoryIssues rt repo)) repos))
         \<and> list_all (\<lambda>repo. fetchRepoIssues svc rt repo = [])
             (filter (\<lambda>repo. isl (repositoryIssues rt repo)) repos)
         \<and> loading (fetchAllIssues svc rt userData st) = False"
proof -
  let ?wanted = "\<lambda>issue. i_type issue \<in> set (issueTypes userData)"
  let ?part = "\<lambda>repo. case repositoryIssues rt repo of
                   Inl e \<Rightarrow> []
                 | Inr githubIssues \<Rightarrow>
                     filter ?wanted (map (toIssue svc rt repo) (take 20 githubIssues))"
  have part: "filter ?wanted (fetchRepoIssues svc rt repo) = ?part repo" for repo
    by (simp add: fetchRepoIssues_def split: sum.splits)
  have "allIssues (fetchAllIssues svc rt userData st)
          = filter ?wanted (concat (map (fetchRepoIssues svc rt) repos))"
    using assms
    by (simp add: fetchAllIssues_def Let_def concat_map_concat concat_batchesFrom)
  also have "\<dots> = concat (map (\<lambda>repo. filter ?wanted (fetchRepoIssues svc rt repo)) repos)"
    by (simp add: filter_concat comp_def)
  also have "\<dots> = concat (map ?part repos)"
    by (simp only: part)
  also have "\<dots> = concat (map ?part (filter (\<lambda>repo. \<not> isl (repositoryIssues rt repo)) repos))"
    by (rule concat_map_filter_nonempty [symmetric]) (auto split: sum.splits)
  finally have 1: "allIssues (fetchAllIssues svc rt userData st)
           = concat (map ?part (filter (\<lambda>repo. \<not> isl (repositoryIssues rt repo)) repos))" .
  have 2: "list_all (\<lambda>repo. fetchRepoIssues svc rt repo = [])
             (filter (\<lambda>repo. isl (repositoryIssues rt repo)) repos)"
    by (simp add: list_all_iff fetchRepoIssues_failed)
  have 3: "loading (fetchAllIssues svc rt userData st) = False"
    using assms by (simp add: fetchAllIssues_def Let_def)
  from 1 2 3 show ?thesis by simp
qed

lemma third_fails:
  "repositoryIssues thirdFailsPlatform (viewRepo n ''acme/r3'') = Inl (Error ''Not Found'')"
  by (simp add: repositoryIssues_def getRepositoryIssues_def thirdFailsPlatform_def
      exactRuntime_def makeRequest_def viewRepo_def notFound_def baseUrl_def ok_def)

lemma others_succeed:
  "k \<in> {''r1'', ''r2'', ''r4'', ''r5''} \<Longrightarrow>
   repositoryIssues thirdFailsPlatform (viewRepo n (''acme/'' @ k))
     = Inr [issueWith ''Fix crash on startup'' [''good first issue'', ''bug'']]"
  by (auto simp: repositoryIssues_def getRepositoryIssues_def thirdFailsPlatform_def
      exactRuntime_def makeRequest_def viewRepo_def okItems_def baseUrl_def ok_def)

lemma example_issue_type:
  "i_type (toIssue githubService rt repo
      (issueWith ''Fix crash on startup'' [''good first issue'', ''bug'']))
     = ''good-first-issue''"
  by (simp add: toIssue_def githubService_def categorizeIssue_def issueWith_def
      toLowerCase_def toLowerChar_def hasBeginnerLabel_def beginnerLabels_def
      beginnerCategory_def)

lemma many_issues_fetched:
  "repositoryIssues manyIssuesPlatform (viewRepo ''r1'' ''acme/r1'')
     = Inr (replicate 21 (issueWith ''Fix typo in README'' [''good first issue'']))"
  by (simp add: repositoryIssues_def getRepositoryIssues_def manyIssuesPlatform_def
      exactRuntime_def makeRequest_def viewRepo_def okItems_def ok_def)

lemma many_issues_type:
  "i_type (toIssue githubService rt repo (issueWith ''Fix typo in README'' [''good first issue'']))
     = ''good-first-issue''"
  by (simp add: toIssue_def githubService_def categorizeIssue_def issueWith_def
      toLowerCase_def toLowerChar_def hasBeginnerLabel_def beginnerLabels_def
      beginnerCategory_def)

lemma one_repo_user:
  "repositories oneRepoUser = Some [viewRepo ''r1'' ''acme/r1'']"
  "issueTypes oneRepoUser = [''good-first-issue'', ''documentation'']"
  by (simp_all add: oneRepoUser_def fiveReposUser_def)

lemma many_issues_stored:
  "allIssues (fetchAllIssues githubService manyIssuesPlatform oneRepoUser emptyDashboard)
     = replicate 20
         (toIssue githubService manyIssuesPlatform (viewRepo ''r1'' ''acme/r1'')
            (issueWith ''Fix typo in README'' [''good first issue'']))"
proof -
  note a = one_repo_user(1) and t = one_repo_user(2)
  have "allIssues (fetchAllIssues githubService manyIssuesPlatform oneRepoUser emptyDashboard)
          = filter (\<lambda>issue. i_type issue \<in> set (issueTypes oneRepoUser))
              (concat (map (fetchRepoIssues githubService manyIssuesPlatform)
                 [viewRepo ''r1'' ''acme/r1'']))"
    using a by (simp add: fetchAllIssues_def Let_def concat_map_concat concat_batchesFrom)
  then show ?thesis
    by (simp add: fetchRepoIssues_def many_issues_fetched t many_issues_type)
qed

text \<open>
  The amended claim with the service of this theory, on the scenario of the specification
  (five repositories, the fetch of the third one fails, and the stored issues are those of
  the other four, in order) and on one repository with 21 wanted issues, of which the
  first 20 are stored.
\<close>

theorem fetchAllIssues_tolerates_failures_witness:
  "repositories fiveReposUser = Some fiveRepos
   \<and> fiveRepos \<noteq> []
   \<and> isl (repositoryIssues thirdFailsPlatform (viewRepo ''r3'' ''acme/r3''))
   \<and> map repository
        (allIssues (fetchAllIssues githubService thirdFailsPlatform fiveReposUser emptyDashboard))
       = [''r1'', ''r2'', ''r4'', ''r5'']
   \<and> map i_type
        (allIssues (fetchAllIssues githubService thirdFailsPlatform fiveReposUser emptyDashboard))
       = [''good-first-issue'', ''good-first-issue'', ''good-first-issue'', ''good-first-issue'']
   \<and> loading (fetchAllIssues githubService thirdFailsPlatform fiveReposUser emptyDashboard)
       = False
   \<and> repositories oneRepoUser = Some [viewRepo ''r1'' ''acme/r1'']
   \<and> [viewRepo ''r1'' ''acme/r1''] \<noteq> []
   \<and> repositoryIssues manyIssuesPlatform (viewRepo ''r1'' ''acme/r1'')
       = Inr (replicate 21 (issueWith ''Fix typo in README'' [''good first issue'']))
   \<and> allIssues (fetchAllIssues githubService manyIssuesPlatform oneRepoUser emptyDashboard)
       = replicate 20
           (toIssue githubService manyIssuesPlatform (viewRepo ''r1'' ''acme/r1'')
              (issueWith ''Fix typo in README'' [''good first issue'']))"
proof -
  have a: "repositories fiveReposUser = Some fiveRepos"
    by (simp add: fiveReposUser_def)
  have b: "fiveRepos \<noteq> []"
    by (simp add: fiveRepos_def)
  have t: "issueTypes fiveReposUser = [''good-first-issue'', ''documentation'']"
    by (simp add: fiveReposUser_def)
  have o: "repositoryIssues thirdFailsPlatform (viewRepo n ''acme/r1'')
             = Inr [issueWith ''Fix crash on startup'' [''good first issue'', ''bug'']]"
          "repositoryIssues thirdFailsPlatform (viewRepo n ''acme/r2'')
             = Inr [issueWith ''Fix crash on startup'' [''good first issue'', ''bug'']]"
          "repositoryIssues thirdFailsPlatform (viewRepo n ''acme/r4'')
             = Inr [issueWith ''Fix crash on startup'' [''good first issue'', ''bug'']]"
          "repositoryIssues thirdFailsPlatform (viewRepo n ''acme/r5'')
             = Inr [issueWith ''Fix crash on startup'' [''good first issue'', ''bug'']]" for n
    using others_succeed [of "''r1''" n] others_succeed [of "''r2''" n]
      others_succeed [of "''r4''" n] others_succeed [of "''r5''" n]
    by simp_all
  have r: "repository (toIssue svc rt (viewRepo n f) i) = n" for svc rt n f i
    by (simp add: toIssue_def viewRepo_def)
  have c: "[viewRepo ''r1'' ''acme/r1''] \<noteq> []"
    by simp
  have five: "map repository
        (allIssues (fetchAllIssues githubService thirdFailsPlatform fiveReposUser emptyDashboard))
       = [''r1'', ''r2'', ''r4'', ''r5'']
   \<and> map i_type
        (allIssues (fetchAllIssues githubService thirdFailsPlatform fiveReposUser emptyDashboard))
       = [''good-first-issue'', ''good-first-issue'', ''good-first-issue'', ''good-first-issue'']
   \<and> loading (fetchAllIssues githubService thirdFailsPlatform fiveReposUser emptyDashboard)
       = False"
    using a b
      fetchAllIssues_tolerates_failures
        [OF a b, of githubService thirdFailsPlatform emptyDashboard]
    by (simp add: t fiveRepos_def third_fails o example_issue_type r)
  have one: "allIssues
        (fetchAllIssues githubService manyIssuesPlatform oneRepoUser emptyDashboard)
       = replicate 20
           (toIssue githubService manyIssuesPlatform (viewRepo ''r1'' ''acme/r1'')
              (issueWith ''Fix typo in README'' [''good first issue'']))"
    using fetchAllIssues_tolerates_failures
        [OF one_repo_user(1) c, of githubService manyIssuesPlatform emptyDashboard]
    by (simp add: many_issues_fetched many_issues_type one_repo_user(2))
  show ?thesis
    using a b five one one_repo_user(1) many_issues_fetched third_fails by simp
qed

text \<open>
  Claim C6 as stated fails for one repository whose fetch succeeds with 21 issues, each of
  a category the user wants: the union of the successful repositories' classified and
  filtered issues has 21 members, and 20 are stored.
\<close>

theorem fetchAllIssues_cap_counterexample:
  "repositories oneRepoUser = Some [viewRepo ''r1'' ''acme/r1'']
   \<and> repositoryIssues manyIssuesPlatform (viewRepo ''r1'' ''acme/r1'')
       = Inr (replicate 21 (issueWith ''Fix typo in README'' [''good first issue'']))
   \<and> length (replicate 21 (issueWith ''Fix typo in README'' [''good first issue''])) = 21
   \<and> i_type (toIssue githubService manyIssuesPlatform (viewRepo ''r1'' ''acme/r1'')
         (issueWith ''Fix typo in README'' [''good first issue'']))
       \<in> set (issueTypes oneRepoUser)
   \<and> length
        (allIssues (fetchAllIssues githubService manyIssuesPlatform oneRepoUser emptyDashboard))
       = 20"
  by (simp add: many_issues_fetched many_issues_type many_issues_stored one_repo_user)

end
